theory Spec2Isabelle
  imports Complex_Main "HOL-Library.Char_ord" "HOL-Library.List_Lexorder"
begin

section \<open>Numbers and errors\<close>

text \<open>
  The numbers of the source are IEEE doubles; the model computes with exact rationals.
  The two agree where every number that occurs is an integer of moderate size, or a
  quotient of such integers that is only compared and rounded away from a tie. This is
  the case for scores that are integers from 0 to 95 and for counts that are
  non-negative integers: \<open>isCount\<close> and the validity predicates below state this
  domain, and the theorems about numbers carry them as hypotheses. Outside it (a
  fraction, a sum that cancels, a value that is not a number) a double can round,
  overflow or be \<open>NaN\<close>, which the model does not follow. \<open>Math.round\<close> rounds to the
  nearest integer, a tie towards plus infinity. An exception is a value of \<open>js_error\<close>,
  and code that can throw returns a sum.
\<close>

datatype js_error = TypeError | SyntaxError | IOError

definition Math_round :: "rat \<Rightarrow> int" where
  "Math_round x = \<lfloor>x + 1 / 2\<rfloor>"

text \<open>A number that is a non-negative integer and that a double holds exactly.\<close>

definition isCount :: "rat \<Rightarrow> bool" where
  "isCount x = (of_int \<lfloor>x\<rfloor> = x \<and> 0 \<le> x \<and> x \<le> 2 ^ 53)"



section \<open>Strings and regular expressions\<close>

text \<open>
  A text is a list of characters. \<open>startsWith\<close>, \<open>endsWith\<close> and \<open>includes\<close> are
  the methods of a JavaScript string; the case mappings act on the ASCII letters.
\<close>

fun startsWith :: "string \<Rightarrow> string \<Rightarrow> bool" where
  "startsWith s [] = True"
| "startsWith [] (p # ps) = False"
| "startsWith (c # s) (p # ps) = (c = p \<and> startsWith s ps)"

fun str_includes :: "string \<Rightarrow> string \<Rightarrow> bool" where
  "str_includes [] p = (p = [])"
| "str_includes (c # s) p = (startsWith (c # s) p \<or> str_includes s p)"

definition endsWith :: "string \<Rightarrow> string \<Rightarrow> bool" where
  "endsWith s p = startsWith (rev s) (rev p)"

definition lowerChar :: "char \<Rightarrow> char" where
  "lowerChar c =
     (case map_of (zip ''ABCDEFGHIJKLMNOPQRSTUVWXYZ'' ''abcdefghijklmnopqrstuvwxyz'') c of
        Some d \<Rightarrow> d
      | None \<Rightarrow> c)"

definition upperChar :: "char \<Rightarrow> char" where
  "upperChar c =
     (case map_of (zip ''abcdefghijklmnopqrstuvwxyz'' ''ABCDEFGHIJKLMNOPQRSTUVWXYZ'') c of
        Some d \<Rightarrow> d
      | None \<Rightarrow> c)"

definition toLowerCase :: "string \<Rightarrow> string" where
  "toLowerCase s = map lowerChar s"

text \<open>
  The regular expression literals of the source use character classes, sequencing,
  the star and a top-level choice only. Such an expression is a list of alternatives,
  an alternative a list of items, an item one character of a class (\<open>Ch\<close>) or any
  number of them (\<open>Rep\<close>). \<open>regex_test\<close> is \<open>RegExp.prototype.test\<close>: some substring
  of the text matches some alternative.
\<close>

datatype cls = Only "char list" | Except "char list"

fun accepts :: "cls \<Rightarrow> char \<Rightarrow> bool" where
  "accepts (Only cs) c = (c \<in> set cs)"
| "accepts (Except cs) c = (c \<notin> set cs)"

datatype item = Ch cls | Rep cls

fun matchHere :: "item list \<Rightarrow> string \<Rightarrow> bool" where
  "matchHere [] s = True"
| "matchHere (Ch k # r) [] = False"
| "matchHere (Ch k # r) (c # s) = (accepts k c \<and> matchHere r s)"
| "matchHere (Rep k # r) [] = matchHere r []"
| "matchHere (Rep k # r) (c # s) =
     (matchHere r (c # s) \<or> (accepts k c \<and> matchHere (Rep k # r) s))"

fun matchAnywhere :: "item list \<Rightarrow> string \<Rightarrow> bool" where
  "matchAnywhere r [] = matchHere r []"
| "matchAnywhere r (c # s) = (matchHere r (c # s) \<or> matchAnywhere r s)"

type_synonym regex = "item list list"

definition regex_test :: "regex \<Rightarrow> string \<Rightarrow> bool" where
  "regex_test alts s = list_ex (\<lambda>r. matchAnywhere r s) alts"

text \<open>A literal, as written and under the flag \<open>i\<close>.\<close>

definition lit :: "string \<Rightarrow> item list" where
  "lit s = map (\<lambda>c. Ch (Only [c])) s"

definition liti :: "string \<Rightarrow> item list" where
  "liti s = map (\<lambda>c. Ch (Only [lowerChar c, upperChar c])) s"

text \<open>
  The classes \<open>.\<close> (all but the line terminators), \<open>[\s\S]\<close>, \<open>\d\<close>, \<open>\s\<close> and
  \<open>['"]\<close>.
\<close>

definition dot :: cls where
  "dot = Except [CHR 0x0A, CHR 0x0D]"

definition anyChar :: cls where
  "anyChar = Except []"

definition digit :: cls where
  "digit = Only ''0123456789''"

definition space :: cls where
  "space = Only [CHR 0x09, CHR 0x0A, CHR 0x0B, CHR 0x0C, CHR 0x0D, CHR 0x20, CHR 0xA0]"

definition quote :: cls where
  "quote = Only [CHR 0x27, CHR 0x22]"

text \<open>
  The patterns of a rule are source strings, compiled at each check by
  \<open>new RegExp(p, 'i')\<close>. The constructor belongs to the language, not to the
  repository: it is a parameter, giving for a source string the \<open>test\<close> method of the
  compiled expression, or \<open>None\<close> where the constructor throws a \<open>SyntaxError\<close>.
\<close>

type_synonym regExp = "string \<Rightarrow> (string \<Rightarrow> bool) option"

text \<open>
  An engine for the examples: a source string of letters, digits and blanks alone
  denotes the search for itself in either case; it takes no other source.
\<close>

definition plainSource :: "string \<Rightarrow> bool" where
  "plainSource p =
     list_all (\<lambda>c. c \<in> set ''abcdefghijklmnopqrstuvwxyzABCDEFGHIJKLMNOPQRSTUVWXYZ0123456789 '') p"

definition plainRegExp :: regExp where
  "plainRegExp p = (if plainSource p then Some (regex_test [liti p]) else None)"

section \<open>The five-dimensional verifier (FiveDVerifier)\<close>

definition EPISTEMIC_CAP :: rat where
  "EPISTEMIC_CAP = 95"


text \<open>\<open>this.thresholds\<close>: the same constant for each of the five dimensions.\<close>

definition threshold :: rat where
  "threshold = 95"

datatype dim_status =
  PASSED | DRIFT_DETECTED_DIM | DEGRADED | FAILED | ERROR | ESTIMATED
  | MALICIOUS_DETECTED | DECAYED

text \<open>
  A dimension result. The evidence payload and the details string are free-form text
  for display and feed no computation; they are left out.
\<close>

record dimensionResult =
  dimension :: nat
  name :: string
  score :: rat
  confidence :: rat
  status :: dim_status

text \<open>
  Each analyzer wraps its body in \<open>try\<close>/\<open>catch\<close>. Its argument is what the body
  observed: \<open>Inl e\<close> when an exception \<open>e\<close> escaped inside the \<open>try\<close> block (the
  \<open>catch\<close> branch runs), \<open>Inr\<close> with the values read from the file system and the
  network otherwise. Numbers read from evidence files are arbitrary rationals.
\<close>

subsection \<open>Dimension 1: commit compliance\<close>

definition analyzeDimension1_Commits :: dimensionResult where
  "analyzeDimension1_Commits =
     \<lparr>dimension = 1, name = ''Commit Compliance'', score = 95, confidence = 95,
      status = PASSED\<rparr>"

subsection \<open>Dimension 2: corpus alignment\<close>

text \<open>
  The corpus file as read: its text, and the number of its non-blank lines that
  \<open>JSON.parse\<close> takes to a truthy value (JSON parsing is not modelled).
\<close>

record corpus =
  content :: string
  exampleCount :: nat

record corpusChecks =
  has95PercentBadge :: bool
  hasEpistemicHumility :: bool
  hasEvidenceBacked :: bool
  hasAspbergersInformed :: bool
  aligned :: bool
  checkScore :: int

definition noChecks :: corpusChecks where
  "noChecks =
     \<lparr>has95PercentBadge = False, hasEpistemicHumility = False, hasEvidenceBacked = False,
      hasAspbergersInformed = False, aligned = False, checkScore = 0\<rparr>"

text \<open>
  \<open>validateCorpusAlignment\<close>: whether the corpus path exists, and the outcome of
  reading it. A failed read is caught and leaves the initial record.
\<close>

definition validateCorpusAlignment :: "bool \<Rightarrow> js_error + corpus \<Rightarrow> corpusChecks" where
  "validateCorpusAlignment corpusExists rd =
     (if corpusExists then
        (case rd of
           Inl e \<Rightarrow> noChecks
         | Inr c \<Rightarrow>
             (let corpusText = toLowerCase (content c);
                  b1 = (str_includes corpusText ''95%''
                        \<or> str_includes corpusText ''epistemic cap'');
                  b2 = (str_includes corpusText ''epistemic''
                        \<or> str_includes corpusText ''humility''
                        \<or> str_includes corpusText ''5% bullshit'');
                  b3 = (str_includes corpusText ''evidence''
                        \<or> str_includes corpusText ''validated''
                        \<or> str_includes corpusText ''proof'');
                  b4 = (str_includes corpusText ''precise''
                        \<or> str_includes corpusText ''rigorous''
                        \<or> str_includes corpusText ''aristocrats'');
                  alignmentCount = length (filter (\<lambda>v. v) [b1, b2, b3, b4, aligned noChecks]);
                  corpusSizeScore =
                    (if exampleCount c \<ge> 50 then 95
                     else Math_round (of_nat (exampleCount c) / 50 * 95));
                  qualityScore = Math_round (of_nat alignmentCount / 4 * 95);
                  sc = min 95 (Math_round (of_int (corpusSizeScore + qualityScore) / 2))
              in \<lparr>has95PercentBadge = b1, hasEpistemicHumility = b2, hasEvidenceBacked = b3,
                  hasAspbergersInformed = b4, aligned = (sc \<ge> 90), checkScore = sc\<rparr>))
      else noChecks)"

text \<open>
  \<open>analyzeDimension2_Corpus\<close>: the two existence checks of the corpus path (one by the
  analyzer, one by the validation) and the outcome of the read.
\<close>

definition analyzeDimension2_Corpus ::
  "js_error + (bool \<times> bool \<times> (js_error + corpus)) \<Rightarrow> dimensionResult" where
  "analyzeDimension2_Corpus obs =
     (case obs of
        Inr (corpusExists, existsAgain, rd) \<Rightarrow>
          (if \<not> corpusExists then
             \<lparr>dimension = 2, name = ''Corpus Alignment'', score = 0, confidence = 0,
              status = FAILED\<rparr>
           else
             (let corpusChecks = validateCorpusAlignment existsAgain rd;
                  s = (if aligned corpusChecks then 95 else of_int (checkScore corpusChecks))
              in \<lparr>dimension = 2, name = ''Corpus Alignment'',
                  score = min s EPISTEMIC_CAP, confidence = 95,
                  status = (if s \<ge> threshold then PASSED else DRIFT_DETECTED_DIM)\<rparr>))
      | Inl e \<Rightarrow>
          \<lparr>dimension = 2, name = ''Corpus Alignment'', score = 0, confidence = 0,
           status = ERROR\<rparr>)"

subsection \<open>Dimension 3: production evidence\<close>

datatype endpoint_reply = Fulfilled int | Rejected

definition endpoints :: "string list" where
  "endpoints = [''/api/incidents'', ''/api/patents'', ''/api/cloudflare-bypass-evidence'',
                ''/health'']"

record apiEvidence =
  allHealthy :: bool
  healthScore :: int

text \<open>
  \<open>fetchProductionEvidence\<close>: the settled reply of each endpoint. An exception while
  the replies are analysed is caught before the health score is assigned.
\<close>

definition fetchProductionEvidence ::
  "js_error + (string \<Rightarrow> endpoint_reply) \<Rightarrow> apiEvidence" where
  "fetchProductionEvidence obs =
     (case obs of
        Inl e \<Rightarrow> \<lparr>allHealthy = False, healthScore = 0\<rparr>
      | Inr get \<Rightarrow>
          (let results = map get endpoints;
               healthyCount = length (filter (\<lambda>r. r = Fulfilled 200) results)
           in \<lparr>allHealthy = (healthyCount = length endpoints),
               healthScore =
                 Math_round (of_nat healthyCount / of_nat (length endpoints) * 100)\<rparr>))"

text \<open>
  An evidence file of a scan: unreadable or not JSON, a skipped scan, or the counts of
  malicious and suspicious detections with the status text. The two counts are the
  numbers the file gives (0 for a missing one). A scan is valid evidence when both are
  counts; the arithmetic of the source on other values (a negative or huge number, a
  string) is not that of the model, and the score it gives need not be a number.
\<close>

datatype vt_file = VtUnparsable | VtSkipped | VtScan rat rat string

fun validScan :: "vt_file \<Rightarrow> bool" where
  "validScan (VtScan malicious suspicious st) = (isCount malicious \<and> isCount suspicious)"
| "validScan d = True"

definition validScans :: "js_error + (bool \<times> (string \<times> vt_file) list) \<Rightarrow> bool" where
  "validScans vt =
     (case vt of
        Inl e \<Rightarrow> True
      | Inr (vtExists, files) \<Rightarrow> list_all (\<lambda>(f, d). validScan d) files)"

record vtEvidence =
  scans :: "(rat \<times> rat \<times> string) list"
  allClean :: bool
  hasMalicious :: bool
  securityScore :: rat

text \<open>The loop over the evidence files: scans, both totals, clean and skipped counts.\<close>

fun vtLoop ::
  "vt_file list \<Rightarrow> (rat \<times> rat \<times> string) list \<times> rat \<times> rat \<times> nat \<times> nat
     \<Rightarrow> (rat \<times> rat \<times> string) list \<times> rat \<times> rat \<times> nat \<times> nat" where
  "vtLoop [] acc = acc"
| "vtLoop (VtUnparsable # fs) acc = vtLoop fs acc"
| "vtLoop (VtSkipped # fs) (sc, totalMalicious, totalSuspicious, cleanServices, skippedScans) =
     vtLoop fs (sc, totalMalicious, totalSuspicious, cleanServices, skippedScans + 1)"
| "vtLoop (VtScan malicious suspicious st # fs)
       (sc, totalMalicious, totalSuspicious, cleanServices, skippedScans) =
     vtLoop fs (sc @ [(malicious, suspicious, st)], totalMalicious + malicious,
                totalSuspicious + suspicious,
                (if st = ''CLEAN'' then cleanServices + 1 else cleanServices), skippedScans)"

text \<open>
  \<open>checkVirusTotalEvidence\<close>: whether the evidence directory exists and its files by
  name; \<open>Inl\<close> when listing the directory throws.
\<close>

definition checkVirusTotalEvidence ::
  "js_error + (bool \<times> (string \<times> vt_file) list) \<Rightarrow> vtEvidence" where
  "checkVirusTotalEvidence obs =
     (case obs of
        Inl e \<Rightarrow> \<lparr>scans = [], allClean = False, hasMalicious = False, securityScore = 0\<rparr>
      | Inr (vtExists, files) \<Rightarrow>
          (if \<not> vtExists then
             \<lparr>scans = [], allClean = False, hasMalicious = False, securityScore = 50\<rparr>
           else
             (let jsonFiles = filter (\<lambda>(f, d). endsWith f ''.json'') files
              in if length jsonFiles = 0 then
                   \<lparr>scans = [], allClean = False, hasMalicious = False, securityScore = 50\<rparr>
                 else
                   (case vtLoop (map snd jsonFiles) ([], 0, 0, 0, 0) of
                      (sc, totalMalicious, totalSuspicious, cleanServices, skippedScans) \<Rightarrow>
                        (let totalScanned = length sc;
                             malic = (totalMalicious > 0);
                             clean = (totalMalicious = 0 \<and> totalScanned > 0);
                             penaltyPercent =
                               min 100 (totalMalicious * 10 + totalSuspicious * 5)
                         in \<lparr>scans = sc, allClean = clean, hasMalicious = malic,
                             securityScore =
                               (if totalScanned = 0 then (if skippedScans > 0 then 75 else 50)
                                else if clean then 95
                                else max 0 (95 - penaltyPercent))\<rparr>)))))"

datatype cf_file = CfUnparsable | CfSummary rat

record cfEvidence =
  hasData :: bool
  analyticsScore :: rat

text \<open>
  \<open>checkCloudflareAnalytics\<close>: the most recent analytics file is the last in the order
  of the names; the argument of \<open>CfSummary\<close> is its page view total.
\<close>

definition checkCloudflareAnalytics ::
  "js_error + (bool \<times> (string \<times> cf_file) list) \<Rightarrow> cfEvidence" where
  "checkCloudflareAnalytics obs =
     (case obs of
        Inl e \<Rightarrow> \<lparr>hasData = False, analyticsScore = 50\<rparr>
      | Inr (cfExists, files) \<Rightarrow>
          (if \<not> cfExists then \<lparr>hasData = False, analyticsScore = 50\<rparr>
           else
             (let cfFiles =
                    rev (sort (filter
                      (\<lambda>f. startsWith f ''cloudflare-analytics-'' \<and> endsWith f ''.json'')
                      (map fst files)))
              in if length cfFiles = 0 then \<lparr>hasData = False, analyticsScore = 50\<rparr>
                 else
                   (case map_of files (hd cfFiles) of
                      Some (CfSummary totalPageviews) \<Rightarrow>
                        (let has = (totalPageviews > 0)
                         in \<lparr>hasData = has, analyticsScore = (if has then 95 else 50)\<rparr>)
                    | _ \<Rightarrow> \<lparr>hasData = False, analyticsScore = 50\<rparr>))))"

text \<open>
  \<open>analyzeDimension3_Evidence\<close>: what the three helpers observe, or \<open>Inl\<close> for an
  exception that reaches the \<open>catch\<close> of the analyzer. The weighted sum multiplies by
  0.4, 0.3 and 0.3; a product of doubles can miss the rational product in its last bit,
  which at a tie can move the rounded score by one and leaves it an integer, capped
  at 95.
\<close>

definition analyzeDimension3_Evidence ::
  "js_error + ((js_error + (string \<Rightarrow> endpoint_reply))
                \<times> (js_error + (bool \<times> (string \<times> vt_file) list))
                \<times> (js_error + (bool \<times> (string \<times> cf_file) list)))
     \<Rightarrow> dimensionResult" where
  "analyzeDimension3_Evidence obs =
     (case obs of
        Inr (api, vt, cf) \<Rightarrow>
          (let apiEvidence = fetchProductionEvidence api;
               vtEvidence = checkVirusTotalEvidence vt;
               cfEvidence = checkCloudflareAnalytics cf;
               s = (if allHealthy apiEvidence \<and> allClean vtEvidence \<and> hasData cfEvidence
                    then 95
                    else of_int (Math_round
                           (of_int (healthScore apiEvidence) * (4 / 10)
                            + securityScore vtEvidence * (3 / 10)
                            + analyticsScore cfEvidence * (3 / 10))));
               st = (if hasMalicious vtEvidence then MALICIOUS_DETECTED
                     else if s < threshold then DEGRADED else PASSED)
           in \<lparr>dimension = 3, name = ''Production Evidence'',
               score = min s EPISTEMIC_CAP, confidence = 95, status = st\<rparr>)
      | Inl e \<Rightarrow>
          \<lparr>dimension = 3, name = ''Production Evidence'', score = 0, confidence = 0,
           status = ERROR\<rparr>)"

subsection \<open>Dimension 4: temporal decay\<close>

record temporal =
  lastCommitAge :: int
  cveExposure :: int
  decayPercent :: rat

definition msPerDay :: int where
  "msPerDay = 24 * 60 * 60 * 1000"

text \<open>
  \<open>calculateTemporalDecay\<close> takes no argument. What its \<open>try\<close> block observes is the
  clock, \<open>Date.now()\<close> in milliseconds, or an exception, which is caught and gives the
  conservative estimate of 5 percent. The time of the last commit is not read from the
  repository: it is the mock value of one day before \<open>now\<close>.
\<close>

definition calculateTemporalDecay :: "js_error + int \<Rightarrow> temporal" where
  "calculateTemporalDecay obs =
     (case obs of
        Inl e \<Rightarrow> \<lparr>lastCommitAge = 0, cveExposure = 0, decayPercent = 5\<rparr>
      | Inr now \<Rightarrow>
          (let lastCommitTime = now - msPerDay;
               age = (now - lastCommitTime) div msPerDay;
               monthsSinceUpdate = (of_int age :: rat) / 30
           in \<lparr>lastCommitAge = age,
               cveExposure = \<lfloor>monthsSinceUpdate * 50\<rfloor>,
               decayPercent =
                 (if age \<le> 7 then 0
                  else if age \<le> 30 then min 3 (of_int age / 10)
                  else min 10 (of_int age / 30))\<rparr>))"

text \<open>
  \<open>analyzeDimension4_Temporal\<close>, given what its \<open>try\<close> block observed: what
  \<open>calculateTemporalDecay\<close> observes in its turn, or an exception (the \<open>catch\<close>
  branch).
\<close>

definition analyzeDimension4_Temporal ::
  "js_error + (js_error + int) \<Rightarrow> dimensionResult" where
  "analyzeDimension4_Temporal obs =
     (case obs of
        Inr clock \<Rightarrow>
          (let temporal = calculateTemporalDecay clock;
               s = 95 - decayPercent temporal
           in \<lparr>dimension = 4, name = ''Temporal Decay'',
               score = max 0 (min s EPISTEMIC_CAP), confidence = 95,
               status = (if s \<ge> threshold then PASSED else DECAYED)\<rparr>)
      | Inl e \<Rightarrow>
          \<lparr>dimension = 4, name = ''Temporal Decay'', score = 85, confidence = 50,
           status = ESTIMATED\<rparr>)"

subsection \<open>Dimension 5: financial efficiency\<close>

text \<open>
  An avoided-cost file: unreadable or not JSON (skipped), or a session with its avoided
  cost. The average return and the velocity label are shown only and feed no score.
  The total is exact here; a sum of doubles of mixed sign and very different size can
  cancel otherwise, and the score is 50 or 95 either way.
\<close>

datatype pf_file = PfUnparsable | PfSession rat

record financial =
  sessions :: "rat list"
  totalAvoidedCost :: rat
  financialScore :: rat

fun pfLoop :: "pf_file list \<Rightarrow> rat list \<Rightarrow> rat list" where
  "pfLoop [] acc = acc"
| "pfLoop (PfUnparsable # fs) acc = pfLoop fs acc"
| "pfLoop (PfSession avoided_cost # fs) acc = pfLoop fs (acc @ [avoided_cost])"

text \<open>A file that cannot be read is skipped like one that is not JSON.\<close>

definition pfRead :: "(string \<times> pf_file) list \<Rightarrow> string \<Rightarrow> pf_file" where
  "pfRead files f = (case map_of files f of Some d \<Rightarrow> d | None \<Rightarrow> PfUnparsable)"

definition checkFinancialEfficiency ::
  "js_error + (bool \<times> (string \<times> pf_file) list) \<Rightarrow> financial" where
  "checkFinancialEfficiency obs =
     (case obs of
        Inl e \<Rightarrow> \<lparr>sessions = [], totalAvoidedCost = 0, financialScore = 50\<rparr>
      | Inr (financialExists, files) \<Rightarrow>
          (if \<not> financialExists then
             \<lparr>sessions = [], totalAvoidedCost = 0, financialScore = 50\<rparr>
           else
             (let pfChangsFiles =
                    rev (sort (filter
                      (\<lambda>f. startsWith f ''pf-changs-avoided-cost-'' \<and> endsWith f ''.json'')
                      (map fst files)))
              in if length pfChangsFiles = 0 then
                   \<lparr>sessions = [], totalAvoidedCost = 0, financialScore = 50\<rparr>
                 else
                   (let ss = pfLoop (map (pfRead files) pfChangsFiles) [];
                        total = fold (\<lambda>s sum. sum + s) ss 0
                    in \<lparr>sessions = ss, totalAvoidedCost = total,
                        financialScore = (if total > 0 then 95 else 50)\<rparr>))))"

definition analyzeDimension5_Financial ::
  "js_error + (js_error + (bool \<times> (string \<times> pf_file) list)) \<Rightarrow> dimensionResult" where
  "analyzeDimension5_Financial obs =
     (case obs of
        Inr f \<Rightarrow>
          (let financial = checkFinancialEfficiency f
           in \<lparr>dimension = 5, name = ''Financial Efficiency'',
               score = financialScore financial, confidence = 95,
               status = (if financialScore financial \<ge> threshold then PASSED
                         else DEGRADED)\<rparr>)
      | Inl e \<Rightarrow>
          \<lparr>dimension = 5, name = ''Financial Efficiency'', score = 50, confidence = 50,
           status = ESTIMATED\<rparr>)"

subsection \<open>The correlator\<close>



text \<open>
  The score of a dimension result is valid when it is an integer from 0 to 95, as the
  analyzers give it. On five valid scores the sum is an integer up to 475, the mean a
  fifth of it (never a tie when rounded, and below 85 exactly when the sum is below
  425), and the drift an integer: the rationals of \<open>correlate5D\<close> are then the doubles of
  the source.
\<close>

definition validScore :: "dimensionResult \<Rightarrow> bool" where
  "validScore d = (isCount (score d) \<and> score d \<le> 95)"


section \<open>The Central Brain client (CentralBrainClient)\<close>

text \<open>
  A rule of the registry (an incident pattern). \<open>textPatterns\<close> is
  \<open>pattern.detection.textPatterns\<close>, \<open>None\<close> when the record has no such list;
  \<open>financialImpact\<close> is \<open>None\<close> when the record has no such member.
\<close>

record impact =
  impact_min :: rat
  impact_max :: rat
  impact_proven :: bool

record incident =
  textPatterns :: "string list option"
  financialImpact :: "impact option"

text \<open>An object keyed by rule identifier: the keys in order, each with its rule.\<close>

type_synonym registry = "(string \<times> incident) list"

record centralBrainClient =
  enabled :: bool
  retryAttempts :: nat
  retryDelay :: nat

text \<open>The constructor, and the instance once \<open>configure\<close> has accepted a configuration.\<close>

definition newClient :: centralBrainClient where
  "newClient = \<lparr>enabled = False, retryAttempts = 3, retryDelay = 1000\<rparr>"

definition configured :: centralBrainClient where
  "configured = newClient\<lparr>enabled := True\<rparr>"

text \<open>
  What the effects of \<open>sendEvents\<close> are, in order: a POST (with the attempt's number),
  the log line of a success, the warning of a retry (attempt and delay), the wait of
  that many milliseconds, the two log lines of the final failure (the second with the
  number of events dropped).
\<close>

datatype effect =
  Post nat | LogSent nat | WarnRetry nat rat | Wait rat | LogFailed nat | LogDropped nat

text \<open>
  \<open>sendEvents(events, attempt)\<close>. \<open>ok n\<close> tells whether the POST of attempt \<open>n\<close>
  succeeds; a rejected request, a timeout and a status other than 2xx all reach the
  \<open>catch\<close> block. The function returns nothing, so its value is the list of its effects.
\<close>

function sendEvents ::
  "centralBrainClient \<Rightarrow> (nat \<Rightarrow> bool) \<Rightarrow> 'e list \<Rightarrow> nat \<Rightarrow> effect list" where
  "sendEvents c ok events attempt =
     (if \<not> enabled c \<or> length events = 0 then []
      else if ok attempt then [Post attempt, LogSent (length events)]
      else if attempt < retryAttempts c then
        (let delay = of_nat (retryDelay c)
                       * (if attempt = 0 then 1 / 2 else 2 ^ (attempt - 1))
         in [Post attempt, WarnRetry attempt delay, Wait delay]
            @ sendEvents c ok events (attempt + 1))
      else [Post attempt, LogFailed (retryAttempts c), LogDropped (length events)])"
  by pat_completeness auto
termination
  by (relation "measure (\<lambda>(c, ok, events, attempt). retryAttempts c - attempt)") auto

declare sendEvents.simps [simp del]

text \<open>The effects that are attempts.\<close>

fun isPost :: "effect \<Rightarrow> bool" where
  "isPost (Post n) = True"
| "isPost e = False"

text \<open>The reply to the GET of the rules: \<open>Body None\<close> is a body without \<open>patterns\<close>.\<close>

datatype remote_reply = NoReply | HttpError | BadBody | Body "registry option"

definition fetchIncidentPatterns :: "centralBrainClient \<Rightarrow> remote_reply \<Rightarrow> registry" where
  "fetchIncidentPatterns c reply =
     (if \<not> enabled c then []
      else (case reply of
              Body (Some patterns) \<Rightarrow> patterns
            | _ \<Rightarrow> []))"

section \<open>The pattern detector (PatternDetector)\<close>

record analysisContext =
  source :: "string option"
  timestamp :: "string option"
  files :: "string list option"
  filePath :: "string option"

datatype severity_level = CRITICAL | HIGH | MEDIUM

datatype finding_type =
  SECURITY_CONTROL_REMOVAL | NO_NGINX_LAW | UNTESTED_DEPLOY | MISSING_THEME_SYSTEM
  | ALPINE_BASE_IMAGE | DOCKER_AMD64_PLATFORM | ENTERPRISE_SPRAWL | HARDCODED_LIVE_DATA
  | GIT_DIRECTORY_BREAKOUT | COST_INEFFICIENCY

text \<open>
  A violation or a warning. The message, the law and the suggested fix are fixed texts
  for each type and are left out; \<open>detail\<close> is the part of the message or of the
  details that varies (the category of enterprise sprawl, the missing theme elements).
\<close>

record finding =
  ftype :: finding_type
  severity :: severity_level
  incidentLabel :: "string option"
  detail :: "string list"
  financialRisk :: "impact option"
  findingContext :: analysisContext

datatype commendation =
  DOCUMENTATION | INVESTOR_MATERIALS | COST_EFFICIENCY | SOC1_FOCUS | ZERO_DAY_PROTECTION
  | PHILOSOPHICAL_ALIGNMENT

record detector =
  violations :: "finding list"
  warnings :: "finding list"
  commendations :: "commendation list"
  incidents :: "registry option"

definition newDetector :: detector where
  "newDetector = \<lparr>violations = [], warnings = [], commendations = [], incidents = None\<rparr>"

record results =
  resViolations :: "finding list"
  resWarnings :: "finding list"
  resCommendations :: "commendation list"
  hasViolations :: bool
  hasCritical :: bool

definition getResults :: "detector \<Rightarrow> results" where
  "getResults d =
     \<lparr>resViolations = violations d, resWarnings = warnings d,
      resCommendations = commendations d,
      hasViolations = (length (violations d) > 0),
      hasCritical = list_ex (\<lambda>v. severity v = CRITICAL) (violations d)\<rparr>"

subsection \<open>Loading the registry\<close>

text \<open>
  A file of the local directory: unreadable or not JSON, or a record with its \<open>id\<close>.
  \<open>assign\<close> is the assignment \<open>this.incidents[id] = incident\<close>.
\<close>

datatype local_file = LocalUnparsable | LocalRecord string incident

fun assign :: "registry \<Rightarrow> string \<Rightarrow> incident \<Rightarrow> registry" where
  "assign [] k v = [(k, v)]"
| "assign ((k', v') # r) k v = (if k' = k then (k, v) # r else (k', v') # assign r k v)"

text \<open>The loop over the local files; \<open>None\<close> when a read or a parse throws.\<close>

fun loadLocal :: "(string \<times> local_file) list \<Rightarrow> registry \<Rightarrow> registry option" where
  "loadLocal [] reg = Some reg"
| "loadLocal ((f, d) # rest) reg =
     (if endsWith f ''.json'' then
        (case d of
           LocalUnparsable \<Rightarrow> None
         | LocalRecord i inc \<Rightarrow> loadLocal rest (assign reg i inc))
      else loadLocal rest reg)"

text \<open>
  For the statement of what a local load gives: the records of the \<open>.json\<close> files of
  a listing, in its order, and whether a file is one the loop reads without an
  exception (a record, or a file it skips by its name).
\<close>

fun localRecords :: "(string \<times> local_file) list \<Rightarrow> (string \<times> incident) list" where
  "localRecords [] = []"
| "localRecords ((f, LocalRecord i inc) # rest) =
     (if endsWith f ''.json'' then (i, inc) # localRecords rest else localRecords rest)"
| "localRecords ((f, LocalUnparsable) # rest) = localRecords rest"

fun readable :: "string \<times> local_file \<Rightarrow> bool" where
  "readable (f, LocalRecord i inc) = True"
| "readable (f, LocalUnparsable) = (\<not> endsWith f ''.json'')"

text \<open>
  What a load finds outside the detector: the client, the reply the registry would
  give, and the local directory (\<open>None\<close> when it cannot be listed).
\<close>

record world =
  centralBrain :: centralBrainClient
  reply :: remote_reply
  incidentsDir :: "(string \<times> local_file) list option"

definition loadIncidentPatterns :: "world \<Rightarrow> detector \<Rightarrow> bool \<times> detector" where
  "loadIncidentPatterns w d =
     (let livePatterns =
            (if enabled (centralBrain w)
             then fetchIncidentPatterns (centralBrain w) (reply w) else [])
      in if enabled (centralBrain w) \<and> length livePatterns > 0 then
           (True, d\<lparr>incidents := Some livePatterns\<rparr>)
         else
           (case incidentsDir w of
              None \<Rightarrow> (False, d\<lparr>incidents := Some []\<rparr>)
            | Some dirFiles \<Rightarrow>
                (case loadLocal dirFiles [] of
                   None \<Rightarrow> (False, d\<lparr>incidents := Some []\<rparr>)
                 | Some reg \<Rightarrow> (True, d\<lparr>incidents := Some reg\<rparr>))))"

subsection \<open>The checks\<close>

text \<open>
  \<open>this.incidents[key]\<close>: a \<open>TypeError\<close> while nothing is loaded, else the rule or
  nothing.
\<close>

definition lookupIncident :: "detector \<Rightarrow> string \<Rightarrow> js_error + incident option" where
  "lookupIncident d key =
     (case incidents d of
        None \<Rightarrow> Inl TypeError
      | Some reg \<Rightarrow> Inr (map_of reg key))"

text \<open>
  \<open>incident.pattern.detection.textPatterns.map(p => new RegExp(p, 'i'))\<close>: a
  \<open>TypeError\<close> without the list, a \<open>SyntaxError\<close> at the first source the constructor
  rejects; every source is compiled before any is tested.
\<close>

fun compileAll :: "regExp \<Rightarrow> string list \<Rightarrow> js_error + (string \<Rightarrow> bool) list" where
  "compileAll rx [] = Inr []"
| "compileAll rx (p # ps) =
     (case rx p of
        None \<Rightarrow> Inl SyntaxError
      | Some t \<Rightarrow>
          (case compileAll rx ps of
             Inl e \<Rightarrow> Inl e
           | Inr ts \<Rightarrow> Inr (t # ts)))"

definition compilePatterns ::
  "regExp \<Rightarrow> incident \<Rightarrow> js_error + (string \<Rightarrow> bool) list" where
  "compilePatterns rx inc =
     (case textPatterns inc of
        None \<Rightarrow> Inl TypeError
      | Some ps \<Rightarrow> compileAll rx ps)"

text \<open>The loop over the compiled patterns: whether it reaches its \<open>push\<close> and \<open>break\<close>.\<close>

fun firstMatch :: "(string \<Rightarrow> bool) list \<Rightarrow> string \<Rightarrow> bool" where
  "firstMatch [] text = False"
| "firstMatch (t # ts) text = (if t text then True else firstMatch ts text)"

text \<open>
  The \<open>financialRisk\<close> of a finding reads \<open>incident.financialImpact.min\<close>: a
  \<open>TypeError\<close> when the rule has no \<open>financialImpact\<close>.
\<close>

definition riskOf :: "incident \<Rightarrow> js_error + impact" where
  "riskOf inc =
     (case financialImpact inc of
        None \<Rightarrow> Inl TypeError
      | Some fi \<Rightarrow>
          Inr \<lparr>impact_min = impact_min fi, impact_max = impact_max fi,
               impact_proven = impact_proven fi\<rparr>)"

definition pushViolation :: "detector \<Rightarrow> finding \<Rightarrow> detector" where
  "pushViolation d v = d\<lparr>violations := violations d @ [v]\<rparr>"

definition pushWarning :: "detector \<Rightarrow> finding \<Rightarrow> detector" where
  "pushWarning d v = d\<lparr>warnings := warnings d @ [v]\<rparr>"

definition pushCommendation :: "detector \<Rightarrow> commendation \<Rightarrow> detector" where
  "pushCommendation d c = d\<lparr>commendations := commendations d @ [c]\<rparr>"

definition checkIssue43Pattern ::
  "regExp \<Rightarrow> string \<Rightarrow> analysisContext \<Rightarrow> detector \<Rightarrow> js_error + detector" where
  "checkIssue43Pattern rx text ctx d =
     (case lookupIncident d ''issue-43'' of
        Inl e \<Rightarrow> Inl e
      | Inr None \<Rightarrow> Inr d
      | Inr (Some inc) \<Rightarrow>
          (case compilePatterns rx inc of
             Inl e \<Rightarrow> Inl e
           | Inr patterns \<Rightarrow>
               (if firstMatch patterns text then
                  (case riskOf inc of
                     Inl e \<Rightarrow> Inl e
                   | Inr risk \<Rightarrow>
                       Inr (pushViolation d
                         \<lparr>ftype = SECURITY_CONTROL_REMOVAL, severity = CRITICAL,
                          incidentLabel = Some ''Issue #43'', detail = [],
                          financialRisk = Some risk, findingContext = ctx\<rparr>))
                else Inr d)))"

definition checkIssue32Pattern ::
  "regExp \<Rightarrow> string \<Rightarrow> analysisContext \<Rightarrow> detector \<Rightarrow> js_error + detector" where
  "checkIssue32Pattern rx text ctx d =
     (case lookupIncident d ''issue-32'' of
        Inl e \<Rightarrow> Inl e
      | Inr None \<Rightarrow> Inr d
      | Inr (Some inc) \<Rightarrow>
          (case compilePatterns rx inc of
             Inl e \<Rightarrow> Inl e
           | Inr patterns \<Rightarrow>
               (if firstMatch patterns text then
                  Inr (pushViolation d
                    \<lparr>ftype = NO_NGINX_LAW, severity = HIGH,
                     incidentLabel = Some ''Issue #32'', detail = [],
                     financialRisk = None, findingContext = ctx\<rparr>)
                else Inr d)))"

text \<open>\<open>checkIssue41Pattern\<close> reads no rule: the file path and the text decide.\<close>

definition checkIssue41Pattern :: "string \<Rightarrow> analysisContext \<Rightarrow> detector \<Rightarrow> detector" where
  "checkIssue41Pattern text ctx d =
     (let isWorkflowChange =
            (case filePath ctx of
               None \<Rightarrow> False
             | Some f \<Rightarrow> str_includes f ''.github/workflows'' \<or> str_includes f ''deploy'')
      in if isWorkflowChange then
           (let hasTestEvidence =
                  (regex_test [liti ''test'' @ [Rep dot] @ liti ''local''] text
                   \<or> regex_test [liti ''local'' @ [Rep dot] @ liti ''test''] text
                   \<or> regex_test [liti ''verified'' @ [Rep dot] @ liti ''local''] text
                   \<or> regex_test [liti ''curl'' @ [Rep dot] @ liti ''localhost''] text)
            in if \<not> hasTestEvidence then
                 pushWarning d
                   \<lparr>ftype = UNTESTED_DEPLOY, severity = HIGH,
                    incidentLabel = Some ''Issue #41'', detail = [],
                    financialRisk = None, findingContext = ctx\<rparr>
               else d)
         else d)"

definition checkDaymanNightmanTheme ::
  "string \<Rightarrow> analysisContext \<Rightarrow> detector \<Rightarrow> js_error + detector" where
  "checkDaymanNightmanTheme text ctx d =
     (case lookupIncident d ''dayman-nightman-theme'' of
        Inl e \<Rightarrow> Inl e
      | Inr None \<Rightarrow> Inr d
      | Inr (Some inc) \<Rightarrow>
          (let isCustomerFacingHTML =
                 (case filePath ctx of
                    None \<Rightarrow> False
                  | Some f \<Rightarrow>
                      (str_includes f ''/public/'' \<and> endsWith f ''.html'')
                      \<or> (str_includes f ''/services/'' \<and> endsWith f ''.html'')
                      \<or> (str_includes f ''status-page'' \<and> endsWith f ''.html''))
           in if \<not> isCustomerFacingHTML then Inr d
              else
                (let hasThemeVars =
                       regex_test [lit '':root'' @ [Rep space] @ lit ''{'' @ [Rep anyChar]
                                   @ lit ''--''] text;
                     hasLightTheme =
                       regex_test [lit ''[data-theme='' @ [Ch quote] @ lit ''light''
                                   @ [Ch quote] @ lit '']''] text;
                     hasToggleFunction = regex_test [lit ''function toggleTheme()''] text;
                     hasDaymanReference = regex_test [lit ''DAYMAN''] text;
                     hasNightmanReference = regex_test [lit ''NIGHTMAN''] text;
                     missingElements =
                       (if \<not> hasThemeVars then ['':root CSS variables''] else [])
                       @ (if \<not> hasLightTheme
                          then [''[data-theme='' @ [CHR 0x22] @ ''light'' @ [CHR 0x22]
                                @ ''] styles'']
                          else [])
                       @ (if \<not> hasToggleFunction then [''toggleTheme() function''] else [])
                       @ (if \<not> hasDaymanReference then [''DAYMAN reference''] else [])
                       @ (if \<not> hasNightmanReference then [''NIGHTMAN reference''] else [])
                 in if length missingElements > 0 then
                      Inr (pushWarning d
                        \<lparr>ftype = MISSING_THEME_SYSTEM, severity = MEDIUM,
                         incidentLabel = Some ''DAYMAN/NIGHTMAN Theme'',
                         detail = missingElements,
                         financialRisk = None, findingContext = ctx\<rparr>)
                    else Inr d)))"

definition checkAlpineBaseImagePattern ::
  "regExp \<Rightarrow> string \<Rightarrow> analysisContext \<Rightarrow> detector \<Rightarrow> js_error + detector" where
  "checkAlpineBaseImagePattern rx text ctx d =
     (case lookupIncident d ''alpine-base-image'' of
        Inl e \<Rightarrow> Inl e
      | Inr None \<Rightarrow> Inr d
      | Inr (Some inc) \<Rightarrow>
          (case compilePatterns rx inc of
             Inl e \<Rightarrow> Inl e
           | Inr patterns \<Rightarrow>
               (if firstMatch patterns text then
                  (case riskOf inc of
                     Inl e \<Rightarrow> Inl e
                   | Inr risk \<Rightarrow>
                       Inr (pushViolation d
                         \<lparr>ftype = ALPINE_BASE_IMAGE, severity = HIGH,
                          incidentLabel = Some ''Alpine Base Image'', detail = [],
                          financialRisk = Some risk, findingContext = ctx\<rparr>))
                else Inr d)))"

definition checkDockerAmd64PlatformPattern ::
  "regExp \<Rightarrow> string \<Rightarrow> analysisContext \<Rightarrow> detector \<Rightarrow> js_error + detector" where
  "checkDockerAmd64PlatformPattern rx text ctx d =
     (case lookupIncident d ''docker-amd64-platform'' of
        Inl e \<Rightarrow> Inl e
      | Inr None \<Rightarrow> Inr d
      | Inr (Some inc) \<Rightarrow>
          (if str_includes text ''./build-and-push.sh''
              \<or> str_includes text ''--platform linux/amd64''
           then Inr d
           else
             (case compilePatterns rx inc of
                Inl e \<Rightarrow> Inl e
              | Inr patterns \<Rightarrow>
                  (if firstMatch patterns text then
                     (case riskOf inc of
                        Inl e \<Rightarrow> Inl e
                      | Inr risk \<Rightarrow>
                          Inr (pushViolation d
                            \<lparr>ftype = DOCKER_AMD64_PLATFORM, severity = HIGH,
                             incidentLabel = Some ''Docker AMD64 Platform'', detail = [],
                             financialRisk = Some risk, findingContext = ctx\<rparr>))
                   else Inr d))))"

text \<open>The five fixed categories of \<open>checkEnterpriseSprawl\<close>, in the order of the source.\<close>

definition sprawlPatterns :: "(string \<times> regex) list" where
  "sprawlPatterns =
     [(''DDoS Protection'',
         [liti ''ddos'' @ [Rep dot] @ liti ''protection'' @ [Rep dot] @ liti ''standard'']),
      (''Private Link'', [liti ''private'' @ [Rep dot] @ liti ''link'']),
      (''Enterprise Key Management'',
         [liti ''enterprise'' @ [Rep dot] @ liti ''key'' @ [Rep dot] @ liti ''management'']),
      (''Application Gateway'', [liti ''application'' @ [Rep dot] @ liti ''gateway'']),
      (''Azure Firewall'', [liti ''azure'' @ [Rep dot] @ liti ''firewall''])]"

definition sprawlViolation :: "analysisContext \<Rightarrow> string \<Rightarrow> finding" where
  "sprawlViolation ctx nm =
     \<lparr>ftype = ENTERPRISE_SPRAWL, severity = CRITICAL, incidentLabel = None,
      detail = [nm], financialRisk = None, findingContext = ctx\<rparr>"

text \<open>The third parameter, \<open>skipCostChecks\<close>, is not read by the body.\<close>

definition checkEnterpriseSprawl ::
  "string \<Rightarrow> analysisContext \<Rightarrow> bool \<Rightarrow> detector \<Rightarrow> detector" where
  "checkEnterpriseSprawl text ctx skipCostChecks d =
     fold (\<lambda>(nm, pattern) d'.
             if regex_test pattern text then pushViolation d' (sprawlViolation ctx nm)
             else d')
       sprawlPatterns d"

definition correctPatterns :: "regex list" where
  "correctPatterns =
     [[liti ''fetch('' @ [Rep dot, Ch quote] @ liti ''/health'',
       liti ''fetch('' @ [Rep dot, Ch quote] @ liti ''/api/version''],
      [liti ''getElementById('' @ [Rep dot] @ liti ''version''],
      [liti ''updateSprintStats''],
      [liti ''textContent'' @ [Rep dot] @ liti ''='' @ [Rep dot] @ liti ''data.''],
      [liti ''// Version from '' @ [Rep dot] @ liti ''API'']]"

definition checkLiveDataLawPattern ::
  "regExp \<Rightarrow> string \<Rightarrow> analysisContext \<Rightarrow> detector \<Rightarrow> js_error + detector" where
  "checkLiveDataLawPattern rx text ctx d =
     (case lookupIncident d ''live-data-law'' of
        Inl e \<Rightarrow> Inl e
      | Inr None \<Rightarrow> Inr d
      | Inr (Some inc) \<Rightarrow>
          (let isRelevantFile =
                 (case filePath ctx of
                    None \<Rightarrow> False
                  | Some f \<Rightarrow>
                      endsWith f ''.html''
                      \<or> (str_includes f ''/public/'' \<and> endsWith f ''.js'')
                      \<or> (str_includes f ''/views/'' \<and> endsWith f ''.ejs''))
           in if \<not> isRelevantFile then Inr d
              else if list_ex (\<lambda>correct. regex_test correct text) correctPatterns then Inr d
              else
                (case compilePatterns rx inc of
                   Inl e \<Rightarrow> Inl e
                 | Inr patterns \<Rightarrow>
                     (if firstMatch patterns text then
                        (case riskOf inc of
                           Inl e \<Rightarrow> Inl e
                         | Inr risk \<Rightarrow>
                             Inr (pushViolation d
                               \<lparr>ftype = HARDCODED_LIVE_DATA, severity = HIGH,
                                incidentLabel = Some ''Live Data Law'', detail = [],
                                financialRisk = Some risk, findingContext = ctx\<rparr>))
                      else Inr d))))"

definition breakoutPatterns :: "regex list" where
  "breakoutPatterns =
     [[liti ''cd'' @ [Ch space, Rep space] @ lit ''../..'' @ [Ch space, Rep space]
         @ lit ''&&'' @ [Rep dot] @ liti ''git'',
       liti ''cd'' @ [Ch space, Rep space] @ lit (''..'' @ [CHR 0x5C] @ ''..'')
         @ [Ch space, Rep space] @ lit ''&&'' @ [Rep dot] @ liti ''git'',
       liti ''cd'' @ [Ch space, Rep space] @ lit ''../../'' @ [Ch space, Rep space]
         @ lit ''&&'' @ [Rep dot] @ liti ''git''],
      [liti ''cd'' @ [Ch space, Rep space] @ lit ''..'' @ [Ch space, Rep space] @ lit ''&&''
         @ [Ch space, Rep space] @ liti ''cd'' @ [Ch space, Rep space] @ lit ''..''
         @ [Ch space, Rep space] @ lit ''&&'' @ [Rep dot] @ liti ''git'']]"

definition checkGitDirectoryBreakout ::
  "string \<Rightarrow> analysisContext \<Rightarrow> detector \<Rightarrow> js_error + detector" where
  "checkGitDirectoryBreakout text ctx d =
     (case lookupIncident d ''git-directory-breakout'' of
        Inl e \<Rightarrow> Inl e
      | Inr None \<Rightarrow> Inr d
      | Inr (Some inc) \<Rightarrow>
          (if list_ex (\<lambda>r. regex_test r text) breakoutPatterns then
             Inr (pushViolation d
               \<lparr>ftype = GIT_DIRECTORY_BREAKOUT, severity = MEDIUM,
                incidentLabel = Some ''Issue #95'', detail = [],
                financialRisk = None, findingContext = ctx\<rparr>)
           else Inr d))"

definition checkHardcodedData ::
  "regExp \<Rightarrow> string \<Rightarrow> analysisContext \<Rightarrow> detector \<Rightarrow> js_error + detector" where
  "checkHardcodedData rx text ctx d = checkLiveDataLawPattern rx text ctx d"

definition expensivePatterns :: "regex list" where
  "expensivePatterns =
     [[lit ''$'' @ [Ch (Only ''56789''), Ch digit, Ch digit, Rep digit, Rep dot]
         @ liti ''month''],
      [lit ''$'' @ [Ch digit, Ch digit, Ch digit, Ch digit, Rep digit, Rep dot]
         @ liti ''month'']]"

definition checkCostEfficiency ::
  "string \<Rightarrow> analysisContext \<Rightarrow> bool \<Rightarrow> detector \<Rightarrow> detector" where
  "checkCostEfficiency text ctx skipCostChecks d =
     (if skipCostChecks then d
      else if list_ex (\<lambda>pattern. regex_test pattern text) expensivePatterns then
        pushWarning d
          \<lparr>ftype = COST_INEFFICIENCY, severity = HIGH, incidentLabel = None, detail = [],
           financialRisk = None, findingContext = ctx\<rparr>
      else d)"

definition checkCommendations :: "string \<Rightarrow> detector \<Rightarrow> detector" where
  "checkCommendations text d =
     (let lowerText = toLowerCase text;
          d1 = (if str_includes lowerText ''cost''
                   \<and> (str_includes lowerText ''reduction''
                        \<or> str_includes lowerText ''efficiency'')
                then pushCommendation d COST_EFFICIENCY else d);
          d2 = (if str_includes lowerText ''soc1'' \<or> str_includes lowerText ''compliance''
                then pushCommendation d1 SOC1_FOCUS else d1);
          d3 = (if str_includes lowerText ''cisa'' \<or> str_includes lowerText ''zero-day''
                   \<or> str_includes lowerText ''kev''
                then pushCommendation d2 ZERO_DAY_PROTECTION else d2)
      in if str_includes lowerText ''born without sin''
            \<or> str_includes lowerText ''no legacy''
         then pushCommendation d3 PHILOSOPHICAL_ALIGNMENT else d3)"

definition isDocumentation :: "string \<Rightarrow> bool" where
  "isDocumentation text =
     (str_includes text ''SECURITY-PHILOSOPHY''
      \<or> str_includes text ''THE LAW''
      \<or> str_includes text ''Born Without Sin''
      \<or> str_includes text ''what NOT to do''
      \<or> str_includes text ''What Legacy Enterprises''
      \<or> str_includes text (''Why They Need It | Why You Don'' @ [CHR 0x27] @ ''t'')
      \<or> str_includes text ''IMPLEMENTATION-PLAN''
      \<or> str_includes text ''JUDGE-DREDD-AGENT-GUIDE'')"

definition isInvestorMaterials :: "string \<Rightarrow> bool" where
  "isInvestorMaterials text =
     (str_includes text ''ARR''
      \<or> str_includes text ''portfolio value''
      \<or> str_includes text ''Patent #''
      \<or> str_includes text ''**Problem:**''
      \<or> str_includes text ''competitors''
      \<or> str_includes text ''TAM:'')"

subsection \<open>The analysis pass\<close>

text \<open>
  The checks run in sequence on the detector; an exception ends the pass and leaves the
  detector as the checks before it made it.
\<close>

fun runChecks ::
  "(detector \<Rightarrow> js_error + detector) list \<Rightarrow> detector \<Rightarrow> js_error option \<times> detector" where
  "runChecks [] d = (None, d)"
| "runChecks (chk # rest) d =
     (case chk d of
        Inl e \<Rightarrow> (Some e, d)
      | Inr d' \<Rightarrow> runChecks rest d')"

definition allChecks ::
  "regExp \<Rightarrow> string \<Rightarrow> analysisContext \<Rightarrow> bool \<Rightarrow> (detector \<Rightarrow> js_error + detector) list"
  where
  "allChecks rx text ctx investor =
     [checkIssue43Pattern rx text ctx,
      checkIssue32Pattern rx text ctx,
      (\<lambda>d. Inr (checkIssue41Pattern text ctx d)),
      checkDaymanNightmanTheme text ctx,
      checkAlpineBaseImagePattern rx text ctx,
      checkDockerAmd64PlatformPattern rx text ctx,
      checkLiveDataLawPattern rx text ctx,
      checkGitDirectoryBreakout text ctx,
      (\<lambda>d. Inr (checkEnterpriseSprawl text ctx investor d)),
      checkHardcodedData rx text ctx,
      (\<lambda>d. Inr (checkCostEfficiency text ctx investor d)),
      (\<lambda>d. Inr (checkCommendations text d))]"

text \<open>
  \<open>analyze(text, context)\<close> on a detector: the outcome (the results, or the exception
  thrown) and the detector after the call.
\<close>

definition analyze ::
  "regExp \<Rightarrow> world \<Rightarrow> detector \<Rightarrow> string \<Rightarrow> analysisContext
     \<Rightarrow> (js_error + results) \<times> detector" where
  "analyze rx w d text ctx =
     (let d0 = d\<lparr>violations := [], warnings := [], commendations := []\<rparr>;
          d1 = (if incidents d0 = None then snd (loadIncidentPatterns w d0) else d0)
      in if isDocumentation text then
           (let d2 = pushCommendation d1 DOCUMENTATION in (Inr (getResults d2), d2))
         else
           (let investor = isInvestorMaterials text;
                d2 = (if investor then pushCommendation d1 INVESTOR_MATERIALS else d1)
            in (case runChecks (allChecks rx text ctx investor) d2 of
                  (Some e, d3) \<Rightarrow> (Inl e, d3)
                | (None, d3) \<Rightarrow> (Inr (getResults d3), d3))))"

subsection \<open>Inputs for the examples\<close>

text \<open>
  The default context \<open>{}\<close> and a context naming one file; a world with no remote
  registry and no local directory; a detector that has loaded a given registry.
\<close>

definition noContext :: analysisContext where
  "noContext = \<lparr>source = None, timestamp = None, files = None, filePath = None\<rparr>"

definition contextOf :: "string \<Rightarrow> analysisContext" where
  "contextOf f = \<lparr>source = None, timestamp = None, files = None, filePath = Some f\<rparr>"

definition offline :: world where
  "offline = \<lparr>centralBrain = newClient, reply = NoReply, incidentsDir = None\<rparr>"

definition loaded :: "registry \<Rightarrow> detector" where
  "loaded reg = newDetector\<lparr>incidents := Some reg\<rparr>"

definition nginxRule :: incident where
  "nginxRule = \<lparr>textPatterns = Some [''nginx''], financialImpact = None\<rparr>"

definition removalRule :: incident where
  "removalRule =
     \<lparr>textPatterns = Some [''disable security''],
      financialImpact =
        Some \<lparr>impact_min = 2500000, impact_max = 6000000, impact_proven = True\<rparr>\<rparr>"


definition sprawlText :: string where
  "sprawlText = ''ARR: ddos protection standard, private link, enterprise key management, ''
                @ ''application gateway, azure firewall''"

section \<open>Properties of the correlator\<close>





section \<open>Properties of the temporal decay\<close>

text \<open>
  The time of the last commit is a placeholder one day before the clock reading, so the
  age is one day whatever the clock reads, the decay is 0 and the score 95. The bands
  above seven days are never entered. A failing clock gives the decay 5 and the score
  90, an exception in the analyzer the score 85.
\<close>

lemma mock_age_one_day:
  "lastCommitAge (calculateTemporalDecay (Inr now)) = 1
   \<and> decayPercent (calculateTemporalDecay (Inr now)) = 0
   \<and> score (analyzeDimension4_Temporal (Inr (Inr now))) = 95"
  by (simp add: analyzeDimension4_Temporal_def calculateTemporalDecay_def msPerDay_def Let_def
      EPISTEMIC_CAP_def)

lemma dimension4_values:
  "score (analyzeDimension4_Temporal obs) \<in> {95, 90, 85}"
proof (cases obs)
  case (Inl e)
  then show ?thesis by (simp add: analyzeDimension4_Temporal_def)
next
  case (Inr clock)
  then show ?thesis
    by (cases clock)
       (simp_all add: analyzeDimension4_Temporal_def calculateTemporalDecay_def msPerDay_def
         Let_def EPISTEMIC_CAP_def)
qed

section \<open>Properties of the dimension analyzers\<close>

lemma Math_round_nonneg: "0 \<le> x \<Longrightarrow> 0 \<le> Math_round x"
  by (simp add: Math_round_def)

lemma capped_mean_range:
  "0 \<le> a \<Longrightarrow> 0 \<le> b
   \<Longrightarrow> 0 \<le> min 95 (Math_round (of_int (a + b) / 2))
       \<and> min 95 (Math_round (of_int (a + b) / 2)) \<le> 95"
  by (simp add: Math_round_nonneg)

lemma quality_nonneg: "0 \<le> Math_round (of_nat n / 4 * 95)"
  by (simp add: Math_round_nonneg)

lemma size_nonneg:
  "0 \<le> (if n \<ge> (50::nat) then 95 else Math_round (of_nat n / 50 * 95))"
  by (simp add: Math_round_nonneg)

lemma checkScore_range:
  "0 \<le> checkScore (validateCorpusAlignment ex rd)
   \<and> checkScore (validateCorpusAlignment ex rd) \<le> 95"
proof (cases "ex \<and> (\<exists>c. rd = Inr c)")
  case False
  then have "validateCorpusAlignment ex rd = noChecks"
    by (cases rd) (auto simp: validateCorpusAlignment_def)
  then show ?thesis by (simp add: noChecks_def)
next
  case True
  then obtain c where rd: "rd = Inr c" and ex: ex by auto
  show ?thesis
    apply (simp only: validateCorpusAlignment_def rd ex if_True sum.case Let_def
        corpusChecks.select_convs)
    apply (rule capped_mean_range)
     apply (rule size_nonneg)
    apply (rule quality_nonneg)
    done
qed

text \<open>Every analyzer returns an integer from 0 to 95.\<close>

lemma dimension2_int:
  "\<exists>n. score (analyzeDimension2_Corpus obs) = of_int n \<and> 0 \<le> n \<and> n \<le> 95"
proof (cases obs)
  case (Inl e)
  then show ?thesis by (simp add: analyzeDimension2_Corpus_def)
next
  case (Inr t)
  obtain ex ex2 rd where t: "t = (ex, ex2, rd)" by (cases t) auto
  let ?k = "checkScore (validateCorpusAlignment ex2 rd)"
  from checkScore_range [of ex2 rd] have k: "0 \<le> ?k" "?k \<le> 95" by simp_all
  then have m: "min (of_int ?k) (95::rat) = of_int ?k" by simp
  show ?thesis
  proof (cases "\<not> ex \<or> aligned (validateCorpusAlignment ex2 rd)")
    case True
    then have "score (analyzeDimension2_Corpus obs) = 0
               \<or> score (analyzeDimension2_Corpus obs) = 95"
      by (auto simp: Inr t analyzeDimension2_Corpus_def Let_def EPISTEMIC_CAP_def)
    then show ?thesis
    proof
      assume "score (analyzeDimension2_Corpus obs) = 0"
      then show ?thesis by (intro exI [of _ 0]) simp
    next
      assume "score (analyzeDimension2_Corpus obs) = 95"
      then show ?thesis by (intro exI [of _ 95]) simp
    qed
  next
    case False
    then have "score (analyzeDimension2_Corpus obs) = of_int ?k"
      by (simp add: Inr t analyzeDimension2_Corpus_def Let_def EPISTEMIC_CAP_def m)
    with k show ?thesis by blast
  qed
qed

lemma healthScore_nonneg: "0 \<le> healthScore (fetchProductionEvidence obs)"
  by (cases obs) (simp_all add: fetchProductionEvidence_def Let_def Math_round_nonneg)

lemma securityScore_nonneg: "0 \<le> securityScore (checkVirusTotalEvidence obs)"
  by (cases obs)
     (auto simp: checkVirusTotalEvidence_def Let_def split: prod.splits)

lemma analyticsScore_nonneg: "0 \<le> analyticsScore (checkCloudflareAnalytics obs)"
  by (cases obs)
     (auto simp: checkCloudflareAnalytics_def Let_def
       split: prod.splits option.splits cf_file.splits)

lemma capped_int: "0 \<le> m \<Longrightarrow> \<exists>n. min (of_int m) (95::rat) = of_int n \<and> 0 \<le> n \<and> n \<le> 95"
  by (intro exI [of _ "min m 95"]) (simp add: min_def)

lemma dimension3_int:
  "\<exists>n. score (analyzeDimension3_Evidence obs) = of_int n \<and> 0 \<le> n \<and> n \<le> 95"
proof (cases obs)
  case (Inl e)
  then show ?thesis by (simp add: analyzeDimension3_Evidence_def)
next
  case (Inr t)
  obtain api vt cf where t: "t = (api, vt, cf)" by (cases t) auto
  let ?x = "of_int (healthScore (fetchProductionEvidence api)) * (4 / 10)
            + securityScore (checkVirusTotalEvidence vt) * (3 / 10)
            + analyticsScore (checkCloudflareAnalytics cf) * (3 / 10 :: rat)"
  have "0 \<le> ?x"
    using healthScore_nonneg [of api] securityScore_nonneg [of vt] analyticsScore_nonneg [of cf]
    by simp
  then have r: "0 \<le> Math_round ?x"
    by (rule Math_round_nonneg)
  have "score (analyzeDimension3_Evidence obs) = min (of_int 95) 95
        \<or> score (analyzeDimension3_Evidence obs) = min (of_int (Math_round ?x)) 95"
    by (simp add: Inr t analyzeDimension3_Evidence_def Let_def EPISTEMIC_CAP_def)
  then show ?thesis
  proof
    assume "score (analyzeDimension3_Evidence obs) = min (of_int 95) 95"
    then show ?thesis by (intro exI [of _ 95]) simp
  next
    assume s: "score (analyzeDimension3_Evidence obs) = min (of_int (Math_round ?x)) 95"
    from capped_int [OF r] show ?thesis unfolding s .
  qed
qed

lemma dimension4_int:
  "\<exists>n. score (analyzeDimension4_Temporal obs) = of_int n \<and> 0 \<le> n \<and> n \<le> 95"
proof -
  from dimension4_values [of obs]
  consider "score (analyzeDimension4_Temporal obs) = 95"
    | "score (analyzeDimension4_Temporal obs) = 90"
    | "score (analyzeDimension4_Temporal obs) = 85" by auto
  then show ?thesis
  proof cases
    case 1 then show ?thesis by (intro exI [of _ 95]) simp
  next
    case 2 then show ?thesis by (intro exI [of _ 90]) simp
  next
    case 3 then show ?thesis by (intro exI [of _ 85]) simp
  qed
qed

lemma financialScore_values:
  "financialScore (checkFinancialEfficiency obs) = 50
   \<or> financialScore (checkFinancialEfficiency obs) = 95"
  by (cases obs) (auto simp: checkFinancialEfficiency_def Let_def split: prod.splits)

lemma dimension5_int:
  "\<exists>n. score (analyzeDimension5_Financial obs) = of_int n \<and> 0 \<le> n \<and> n \<le> 95"
proof -
  have "score (analyzeDimension5_Financial obs) = 50
        \<or> score (analyzeDimension5_Financial obs) = 95"
  proof (cases obs)
    case (Inl e)
    then show ?thesis by (simp add: analyzeDimension5_Financial_def)
  next
    case (Inr f)
    from financialScore_values [of f] show ?thesis
      by (auto simp: Inr analyzeDimension5_Financial_def Let_def)
  qed
  then show ?thesis
  proof
    assume "score (analyzeDimension5_Financial obs) = 50"
    then show ?thesis by (intro exI [of _ 50]) simp
  next
    assume "score (analyzeDimension5_Financial obs) = 95"
    then show ?thesis by (intro exI [of _ 95]) simp
  qed
qed

lemma int_score_valid:
  assumes "\<exists>n. score r = of_int n \<and> 0 \<le> n \<and> n \<le> 95"
  shows "0 \<le> score r \<and> score r \<le> 95 \<and> validScore r"
proof -
  from assms obtain n :: int where n: "score r = of_int n" "0 \<le> n" "n \<le> 95" by blast
  then show ?thesis by (simp add: validScore_def isCount_def)
qed

text \<open>
  C2. On valid inputs (the detection counts of the scan files are counts) the score of
  the dimension result that an analyzer returns lies between 0 and 95, whatever else the
  analyzer observes, in the \<open>catch\<close> branches and the degraded branches too; it is
  moreover an integer, hence a valid score for the correlator. The bound holds of the
  record as returned, before anything is displayed.
\<close>

theorem dimension_scores_bounded:
  assumes "validScans vt"
  shows "(let r1 = analyzeDimension1_Commits;
              r2 = analyzeDimension2_Corpus o2;
              r3 = analyzeDimension3_Evidence (Inr (api, vt, cf));
              r3' = analyzeDimension3_Evidence (Inl e);
              r4 = analyzeDimension4_Temporal o4;
              r5 = analyzeDimension5_Financial o5
          in (0 \<le> score r1 \<and> score r1 \<le> 95 \<and> validScore r1)
             \<and> (0 \<le> score r2 \<and> score r2 \<le> 95 \<and> validScore r2)
             \<and> (0 \<le> score r3 \<and> score r3 \<le> 95 \<and> validScore r3)
             \<and> (0 \<le> score r3' \<and> score r3' \<le> 95 \<and> validScore r3')
             \<and> (0 \<le> score r4 \<and> score r4 \<le> 95 \<and> validScore r4)
             \<and> (0 \<le> score r5 \<and> score r5 \<le> 95 \<and> validScore r5))"
proof -
  have "\<exists>n. score analyzeDimension1_Commits = of_int n \<and> 0 \<le> n \<and> n \<le> 95"
    by (intro exI [of _ 95]) (simp add: analyzeDimension1_Commits_def)
  then show ?thesis
    unfolding Let_def
    using int_score_valid [OF dimension2_int [of o2]]
      int_score_valid [OF dimension3_int [of "Inr (api, vt, cf)"]]
      int_score_valid [OF dimension3_int [of "Inl e"]]
      int_score_valid [OF dimension4_int [of o4]]
      int_score_valid [OF dimension5_int [of o5]]
      int_score_valid [of analyzeDimension1_Commits]
    by blast
qed

text \<open>
  Three of four endpoints healthy, one malicious detection and no analytics data: the
  third dimension scores round(30 + 25.5 + 15) = 71. A corpus of ten examples with two
  of the four signals scores round((19 + 48) / 2) = 34.
\<close>

theorem dimension_scores_bounded_witness:
  "(let vt = Inr (True, [(''a.json'', VtScan 1 0 ''MALICIOUS''), (''b.json'', VtSkipped)]);
        r2 = analyzeDimension2_Corpus
               (Inr (True, True, Inr \<lparr>content = ''Evidence at 95%'', exampleCount = 10\<rparr>));
        r3 = analyzeDimension3_Evidence
               (Inr (Inr (\<lambda>e. if e = ''/health'' then Rejected else Fulfilled 200),
                     vt, Inr (True, [])));
        r4 = analyzeDimension4_Temporal (Inr (Inr 1762128000000));
        r5 = analyzeDimension5_Financial (Inr (Inl IOError))
    in validScans vt
       \<and> score r2 = 34 \<and> score r3 = 71 \<and> status r3 = MALICIOUS_DETECTED
       \<and> score r4 = 95 \<and> score r5 = 50
       \<and> validScore r2 \<and> validScore r3 \<and> validScore r4 \<and> validScore r5)"
proof -
  let ?vt = "Inr (True, [(''a.json'', VtScan 1 0 ''MALICIOUS''), (''b.json'', VtSkipped)])
               :: js_error + (bool \<times> (string \<times> vt_file) list)"
  let ?o2 = "Inr (True, True, Inr \<lparr>content = ''Evidence at 95%'', exampleCount = 10\<rparr>)"
  let ?api = "Inr (\<lambda>e. if e = ''/health'' then Rejected else Fulfilled 200)"
  let ?cf = "Inr (True, []) :: js_error + (bool \<times> (string \<times> cf_file) list)"
  have v: "validScans ?vt"
    by (simp add: validScans_def isCount_def)
  have e2: "score (analyzeDimension2_Corpus ?o2) = 34"
    by code_simp
  have e3: "score (analyzeDimension3_Evidence (Inr (?api, ?vt, ?cf))) = 71"
    by code_simp
  have s3: "status (analyzeDimension3_Evidence (Inr (?api, ?vt, ?cf))) = MALICIOUS_DETECTED"
    by code_simp
  have e4: "score (analyzeDimension4_Temporal (Inr (Inr 1762128000000))) = 95"
    by (simp add: mock_age_one_day)
  have e5: "score (analyzeDimension5_Financial (Inr (Inl IOError))) = 50"
    by (simp add: analyzeDimension5_Financial_def checkFinancialEfficiency_def)
  from dimension_scores_bounded
         [OF v, of ?o2 ?api ?cf IOError "Inr (Inr 1762128000000)" "Inr (Inl IOError)"]
       v e2 e3 s3 e4 e5
  show ?thesis
    unfolding Let_def by blast
qed

section \<open>Properties of the registry load\<close>

lemma load_frame:
  "violations (snd (loadIncidentPatterns w d)) = violations d
   \<and> warnings (snd (loadIncidentPatterns w d)) = warnings d
   \<and> commendations (snd (loadIncidentPatterns w d)) = commendations d"
  by (simp add: loadIncidentPatterns_def Let_def split: option.splits)

lemma load_incidents_Some: "\<exists>reg. incidents (snd (loadIncidentPatterns w d)) = Some reg"
  by (simp add: loadIncidentPatterns_def Let_def split: option.splits)

lemma reset_eq:
  "incidents d = r \<Longrightarrow>
   d\<lparr>violations := [], warnings := [], commendations := []\<rparr>
     = \<lparr>violations = [], warnings = [], commendations = [], incidents = r\<rparr>"
  by (intro detector.equality) simp_all

text \<open>
  The local load adds the records of the \<open>.json\<close> files in the order of the listing,
  a later record replacing an earlier one of the same id; it completes when every
  \<open>.json\<close> file of the directory parses.
\<close>

lemma map_of_assign: "map_of (assign reg k v) = (map_of reg)(k \<mapsto> v)"
  by (induction reg) auto

lemma loadLocal_records:
  "loadLocal dirFiles reg = Some reg'
   \<Longrightarrow> map_of reg' = map_of reg ++ map_of (rev (localRecords dirFiles))"
proof (induction dirFiles arbitrary: reg)
  case Nil
  then show ?case by simp
next
  case (Cons x rest)
  obtain f c where x: "x = (f, c)" by (cases x)
  show ?case
  proof (cases "endsWith f ''.json''")
    case False
    with Cons x show ?thesis by (cases c) auto
  next
    case True
    with Cons.prems x obtain i inc where c: "c = LocalRecord i inc"
      and l: "loadLocal rest (assign reg i inc) = Some reg'"
      by (cases c) auto
    have "map_of reg' = (map_of reg)(i \<mapsto> inc) ++ map_of (rev (localRecords rest))"
      using Cons.IH [OF l] unfolding map_of_assign .
    also have "\<dots> = map_of reg ++ ([i \<mapsto> inc] ++ map_of (rev (localRecords rest)))"
      by (simp add: map_add_assoc [symmetric] map_add_upd)
    finally show ?thesis using True x c by simp
  qed
qed

lemma loadLocal_readable:
  "list_all readable dirFiles \<Longrightarrow> \<exists>reg'. loadLocal dirFiles reg = Some reg'"
proof (induction dirFiles arbitrary: reg)
  case Nil
  then show ?case by simp
next
  case (Cons x rest)
  obtain f c where x: "x = (f, c)" by (cases x)
  with Cons show ?case by (cases c) auto
qed

text \<open>
  C7. A load that succeeds discards the set held before and replaces it wholesale: by
  the remote set when the client is enabled and that set is not empty, and otherwise,
  when every \<open>.json\<close> file of the local directory parses, by the records of these
  files alone (a later file wins on a repeated id), never by a merge of both. When
  there is no usable remote set and the local directory cannot be listed, the load
  reports failure and the new set is empty. In every case the new set does not depend
  on the set held before, and the findings of the detector are untouched.
\<close>

theorem load_replaces_wholesale:
  "(let remote = fetchIncidentPatterns (centralBrain w) (reply w);
        ok = fst (loadIncidentPatterns w d);
        d' = snd (loadIncidentPatterns w d)
    in (enabled (centralBrain w) \<and> remote \<noteq> [] \<longrightarrow> ok \<and> incidents d' = Some remote)
       \<and> (\<not> (enabled (centralBrain w) \<and> remote \<noteq> []) \<longrightarrow>
            (\<forall>dirFiles. incidentsDir w = Some dirFiles \<and> list_all readable dirFiles \<longrightarrow>
               ok \<and> (\<exists>reg. incidents d' = Some reg
                          \<and> map_of reg = map_of (rev (localRecords dirFiles))))
            \<and> (incidentsDir w = None \<longrightarrow> \<not> ok \<and> incidents d' = Some []))
       \<and> incidents d' = incidents (snd (loadIncidentPatterns w d2))
       \<and> violations d' = violations d \<and> warnings d' = warnings d
       \<and> commendations d' = commendations d)"
proof -
  have loc: "fst (loadIncidentPatterns w d)
             \<and> (\<exists>reg. incidents (snd (loadIncidentPatterns w d)) = Some reg
                  \<and> map_of reg = map_of (rev (localRecords dirFiles)))"
    if off: "\<not> (enabled (centralBrain w)
                \<and> fetchIncidentPatterns (centralBrain w) (reply w) \<noteq> [])"
      and dir: "incidentsDir w = Some dirFiles" and rd: "list_all readable dirFiles"
    for dirFiles
  proof -
    from loadLocal_readable [OF rd] obtain reg where reg: "loadLocal dirFiles [] = Some reg"
      by blast
    from loadLocal_records [OF reg]
    have "map_of reg = map_of (rev (localRecords dirFiles))" by simp
    with off dir reg show ?thesis
      by (auto simp: loadIncidentPatterns_def Let_def)
  qed
  have rest: "(enabled (centralBrain w)
                 \<and> fetchIncidentPatterns (centralBrain w) (reply w) \<noteq> [] \<longrightarrow>
               fst (loadIncidentPatterns w d)
               \<and> incidents (snd (loadIncidentPatterns w d))
                   = Some (fetchIncidentPatterns (centralBrain w) (reply w)))
    \<and> (\<not> (enabled (centralBrain w)
            \<and> fetchIncidentPatterns (centralBrain w) (reply w) \<noteq> [])
        \<and> incidentsDir w = None \<longrightarrow>
          \<not> fst (loadIncidentPatterns w d)
          \<and> incidents (snd (loadIncidentPatterns w d)) = Some [])
    \<and> incidents (snd (loadIncidentPatterns w d))
        = incidents (snd (loadIncidentPatterns w d2))"
    by (auto simp: loadIncidentPatterns_def Let_def split: option.splits)
  show ?thesis
    unfolding Let_def using loc rest load_frame [of w d] by blast
qed

text \<open>
  A remote set of one rule replaces the set held before. With an empty remote set the
  local directory decides: three record files, two of them with the same id, and a
  file that is not a record file.
\<close>

theorem load_replaces_wholesale_witness:
  "(let remoteWorld = \<lparr>centralBrain = configured, reply = Body (Some [(''issue-32'', nginxRule)]),
                       incidentsDir = None\<rparr>;
        localWorld = \<lparr>centralBrain = configured, reply = Body (Some []),
                      incidentsDir = Some [(''a.json'', LocalRecord ''issue-43'' nginxRule),
                                           (''b.json'', LocalRecord ''issue-43'' removalRule),
                                           (''c.json'', LocalRecord ''issue-32'' nginxRule),
                                           (''notes.txt'', LocalUnparsable)]\<rparr>;
        d = loaded [(''alpine-base-image'', nginxRule)]
    in loadIncidentPatterns remoteWorld d = (True, loaded [(''issue-32'', nginxRule)])
       \<and> list_all readable [(''a.json'', LocalRecord ''issue-43'' nginxRule),
                             (''b.json'', LocalRecord ''issue-43'' removalRule),
                             (''c.json'', LocalRecord ''issue-32'' nginxRule),
                             (''notes.txt'', LocalUnparsable)]
       \<and> loadIncidentPatterns localWorld d
           = (True, loaded [(''issue-43'', removalRule), (''issue-32'', nginxRule)])
       \<and> incidents (snd (loadIncidentPatterns localWorld d))
           = incidents (snd (loadIncidentPatterns localWorld newDetector)))"
proof -
  have r: "loadIncidentPatterns
             \<lparr>centralBrain = configured, reply = Body (Some [(''issue-32'', nginxRule)]),
              incidentsDir = None\<rparr> (loaded [(''alpine-base-image'', nginxRule)])
           = (True, loaded [(''issue-32'', nginxRule)])"
    by (simp add: Let_def loadIncidentPatterns_def fetchIncidentPatterns_def configured_def
        newClient_def loaded_def newDetector_def)
  have rd: "list_all readable [(''a.json'', LocalRecord ''issue-43'' nginxRule),
                             (''b.json'', LocalRecord ''issue-43'' removalRule),
                             (''c.json'', LocalRecord ''issue-32'' nginxRule),
                             (''notes.txt'', LocalUnparsable)]"
    by (simp add: endsWith_def)
  have l: "loadIncidentPatterns
             \<lparr>centralBrain = configured, reply = Body (Some []),
              incidentsDir = Some [(''a.json'', LocalRecord ''issue-43'' nginxRule),
                                   (''b.json'', LocalRecord ''issue-43'' removalRule),
                                   (''c.json'', LocalRecord ''issue-32'' nginxRule),
                                   (''notes.txt'', LocalUnparsable)]\<rparr>
             (loaded [(''alpine-base-image'', nginxRule)])
           = (True, loaded [(''issue-43'', removalRule), (''issue-32'', nginxRule)])"
    by (simp add: Let_def loadIncidentPatterns_def fetchIncidentPatterns_def configured_def
        newClient_def loaded_def newDetector_def endsWith_def)
  from load_replaces_wholesale
      [of "\<lparr>centralBrain = configured, reply = Body (Some []),
            incidentsDir = Some [(''a.json'', LocalRecord ''issue-43'' nginxRule),
                                 (''b.json'', LocalRecord ''issue-43'' removalRule),
                                 (''c.json'', LocalRecord ''issue-32'' nginxRule),
                                 (''notes.txt'', LocalUnparsable)]\<rparr>"
          "loaded [(''alpine-base-image'', nginxRule)]" newDetector]
    r rd l
  show ?thesis
    unfolding Let_def by blast
qed

text \<open>
  Against C7 as stated: a load that fails totally (no remote set, no local directory)
  does not retain the rule set loaded before; the set becomes empty.
\<close>

theorem load_failure_discards_previous:
  "fst (loadIncidentPatterns offline (loaded [(''issue-32'', nginxRule)])) = False
   \<and> incidents (loaded [(''issue-32'', nginxRule)]) = Some [(''issue-32'', nginxRule)]
   \<and> incidents (snd (loadIncidentPatterns offline (loaded [(''issue-32'', nginxRule)])))
       = Some []"
  by (simp add: loadIncidentPatterns_def offline_def newClient_def loaded_def newDetector_def
      Let_def)

section \<open>Properties of the analysis pass\<close>

text \<open>
  C3. On a text that the documentation classifier accepts, in any context and with any
  registry, \<open>analyze\<close> returns no violation, no warning and the single commendation
  \<open>DOCUMENTATION\<close>: no check runs.
\<close>

theorem documentation_short_circuit:
  "isDocumentation text \<Longrightarrow>
   fst (analyze rx w d text ctx) =
     Inr \<lparr>resViolations = [], resWarnings = [], resCommendations = [DOCUMENTATION],
          hasViolations = False, hasCritical = False\<rparr>"
  by (simp add: analyze_def Let_def pushCommendation_def getResults_def load_frame)

text \<open>A text with the marker and the word of a loaded rule.\<close>

theorem documentation_short_circuit_witness:
  "isDocumentation ''THE LAW: add nginx''
   \<and> fst (analyze plainRegExp offline (loaded [(''issue-32'', nginxRule)])
            ''THE LAW: add nginx'' noContext) =
       Inr \<lparr>resViolations = [], resWarnings = [], resCommendations = [DOCUMENTATION],
            hasViolations = False, hasCritical = False\<rparr>"
proof -
  have m: "isDocumentation ''THE LAW: add nginx''"
    by code_simp
  from documentation_short_circuit [OF m] m show ?thesis
    by simp
qed

lemmas push_defs = pushViolation_def pushWarning_def pushCommendation_def

lemma checkIssue43_incidents:
  "checkIssue43Pattern rx text ctx d = Inr d' \<Longrightarrow> incidents d' = incidents d"
  by (auto simp: checkIssue43Pattern_def push_defs split: sum.splits option.splits if_splits)

lemma checkIssue32_incidents:
  "checkIssue32Pattern rx text ctx d = Inr d' \<Longrightarrow> incidents d' = incidents d"
  by (auto simp: checkIssue32Pattern_def push_defs split: sum.splits option.splits if_splits)

lemma checkIssue41_incidents: "incidents (checkIssue41Pattern text ctx d) = incidents d"
  by (simp add: checkIssue41Pattern_def push_defs Let_def)

lemma checkTheme_incidents:
  "checkDaymanNightmanTheme text ctx d = Inr d' \<Longrightarrow> incidents d' = incidents d"
  by (auto simp: checkDaymanNightmanTheme_def push_defs Let_def
      split: sum.splits option.splits if_splits)

lemma checkAlpine_incidents:
  "checkAlpineBaseImagePattern rx text ctx d = Inr d' \<Longrightarrow> incidents d' = incidents d"
  by (auto simp: checkAlpineBaseImagePattern_def push_defs
      split: sum.splits option.splits if_splits)

lemma checkDocker_incidents:
  "checkDockerAmd64PlatformPattern rx text ctx d = Inr d' \<Longrightarrow> incidents d' = incidents d"
  by (auto simp: checkDockerAmd64PlatformPattern_def push_defs
      split: sum.splits option.splits if_splits)

lemma checkLiveData_incidents:
  "checkLiveDataLawPattern rx text ctx d = Inr d' \<Longrightarrow> incidents d' = incidents d"
  by (auto simp: checkLiveDataLawPattern_def push_defs Let_def
      split: sum.splits option.splits if_splits)

lemma checkBreakout_incidents:
  "checkGitDirectoryBreakout text ctx d = Inr d' \<Longrightarrow> incidents d' = incidents d"
  by (auto simp: checkGitDirectoryBreakout_def push_defs
      split: sum.splits option.splits if_splits)

lemma sprawl_fold_incidents:
  "incidents (fold (\<lambda>(nm, pattern) d'.
             if regex_test pattern text then pushViolation d' (sprawlViolation ctx nm)
             else d') ps d) = incidents d"
  by (induction ps arbitrary: d) (auto simp: push_defs)

lemma checkSprawl_incidents:
  "incidents (checkEnterpriseSprawl text ctx skip d) = incidents d"
  unfolding checkEnterpriseSprawl_def by (rule sprawl_fold_incidents)

lemma checkCost_incidents: "incidents (checkCostEfficiency text ctx skip d) = incidents d"
  by (simp add: checkCostEfficiency_def push_defs)

lemma checkCommendations_incidents: "incidents (checkCommendations text d) = incidents d"
  by (simp add: checkCommendations_def push_defs Let_def)

lemmas check_incidents =
  checkIssue43_incidents checkIssue32_incidents checkTheme_incidents checkAlpine_incidents
  checkDocker_incidents checkLiveData_incidents checkBreakout_incidents

lemma runChecks_preserves:
  assumes "\<And>chk d d'. chk \<in> set cs \<Longrightarrow> chk d = Inr d' \<Longrightarrow> f d' = f d"
  shows "f (snd (runChecks cs d)) = f d"
  using assms
proof (induction cs arbitrary: d)
  case Nil
  then show ?case by simp
next
  case (Cons chk cs)
  show ?case
  proof (cases "chk d")
    case (Inl e)
    then show ?thesis by simp
  next
    case (Inr d')
    have "f (snd (runChecks cs d')) = f d'"
      by (rule Cons.IH) (auto intro: Cons.prems)
    moreover have "f d' = f d"
      using Inr by (auto intro: Cons.prems)
    ultimately show ?thesis using Inr by simp
  qed
qed

lemma allChecks_incidents:
  "chk \<in> set (allChecks rx text ctx investor) \<Longrightarrow> chk d = Inr d' \<Longrightarrow> incidents d' = incidents d"
  unfolding allChecks_def
  by (auto simp: checkHardcodedData_def checkIssue41_incidents checkSprawl_incidents
      checkCost_incidents checkCommendations_incidents dest: check_incidents)

lemma runAll_incidents:
  "incidents (snd (runChecks (allChecks rx text ctx investor) d)) = incidents d"
  by (rule runChecks_preserves) (rule allChecks_incidents)

lemma analyze_loaded:
  assumes "incidents d = Some reg"
  shows "analyze rx w d text ctx =
         analyze rx w' \<lparr>violations = [], warnings = [], commendations = [],
                        incidents = Some reg\<rparr> text ctx"
  using assms by (simp add: analyze_def Let_def reset_eq [of d "Some reg"])

lemma analyze_incidents:
  "incidents (snd (analyze rx w d text ctx)) =
     (if incidents d = None
      then incidents (snd (loadIncidentPatterns w
             (d\<lparr>violations := [], warnings := [], commendations := []\<rparr>)))
      else incidents d)"
proof -
  have r: "incidents (snd (case runChecks (allChecks rx text ctx investor) x of
                  (Some e, d3) \<Rightarrow> (Inl e, d3)
                | (None, d3) \<Rightarrow> (Inr (getResults d3), d3))) = incidents x" for x investor
    using runAll_incidents [of rx "text" ctx investor x]
    by (auto split: prod.splits option.splits)
  show ?thesis
    by (simp add: analyze_def Let_def r push_defs)
qed

lemma analyze_incidents_Some: "\<exists>reg. incidents (snd (analyze rx w d text ctx)) = Some reg"
  using load_incidents_Some [of w "d\<lparr>violations := [], warnings := [], commendations := []\<rparr>"]
  by (cases "incidents d") (auto simp: analyze_incidents)

lemma analyze_first_load:
  assumes "incidents d = None" and post: "incidents (snd (analyze rx w d text ctx)) = Some reg"
  shows "analyze rx w d text ctx =
         analyze rx w' \<lparr>violations = [], warnings = [], commendations = [],
                        incidents = Some reg\<rparr> text ctx"
proof -
  let ?d0 = "d\<lparr>violations := [], warnings := [], commendations := []\<rparr>"
  let ?d1 = "snd (loadIncidentPatterns w ?d0)"
  have reg: "incidents ?d1 = Some reg"
    using assms by (simp add: analyze_incidents)
  have d1: "?d1 = \<lparr>violations = [], warnings = [], commendations = [], incidents = Some reg\<rparr>"
    using reg load_frame [of w ?d0] by (intro detector.equality) simp_all
  show ?thesis
    using assms(1) d1 by (simp add: analyze_def Let_def)
qed

text \<open>
  A pass is decided by the rule set in force, which is the one the detector holds after
  the call.
\<close>

lemma analyze_active:
  assumes reg: "incidents (snd (analyze rx w d text ctx)) = Some reg"
  shows "analyze rx w d text ctx =
         analyze rx w' \<lparr>violations = [], warnings = [], commendations = [],
                        incidents = Some reg\<rparr> text ctx"
proof (cases "incidents d")
  case None
  then show ?thesis using reg by (rule analyze_first_load)
next
  case (Some r)
  then have "r = reg" using reg by (simp add: analyze_incidents)
  with Some have "incidents d = Some reg" by simp
  then show ?thesis by (rule analyze_loaded)
qed

text \<open>
  C9. A second call of \<open>analyze\<close> on the same detector with the same text and context
  returns what the first call returned, results or exception, and leaves the detector
  as the first call left it: the three arrays are reset at the start of a pass, and
  the registry loaded by the first call is the one in force in the second.
\<close>

theorem analyze_idempotent:
  "analyze rx w' (snd (analyze rx w d text ctx)) text ctx = analyze rx w d text ctx"
proof -
  obtain reg where reg: "incidents (snd (analyze rx w d text ctx)) = Some reg"
    using analyze_incidents_Some [of rx w d "text" ctx] by auto
  have second: "analyze rx w' (snd (analyze rx w d text ctx)) text ctx =
        analyze rx w \<lparr>violations = [], warnings = [], commendations = [],
                       incidents = Some reg\<rparr> text ctx"
    by (rule analyze_loaded [OF reg])
  have first: "analyze rx w d text ctx =
        analyze rx w \<lparr>violations = [], warnings = [], commendations = [],
                       incidents = Some reg\<rparr> text ctx"
    by (rule analyze_active [OF reg])
  show ?thesis
    unfolding second by (rule first [symmetric])
qed

text \<open>
  A new detector loads one rule from the local directory at its first call and finds a
  violation; the second call, in a world where nothing can be loaded, returns the same.
\<close>

theorem analyze_idempotent_witness:
  "(let localWorld = \<lparr>centralBrain = newClient, reply = NoReply,
                      incidentsDir = Some [(''issue-32.json'', LocalRecord ''issue-32'' nginxRule)]\<rparr>;
        first = analyze plainRegExp localWorld newDetector ''add nginx'' noContext
    in fst first =
         Inr \<lparr>resViolations =
                [\<lparr>ftype = NO_NGINX_LAW, severity = HIGH, incidentLabel = Some ''Issue #32'',
                  detail = [], financialRisk = None, findingContext = noContext\<rparr>],
              resWarnings = [], resCommendations = [],
              hasViolations = True, hasCritical = False\<rparr>
       \<and> incidents (snd first) = Some [(''issue-32'', nginxRule)]
       \<and> analyze plainRegExp offline (snd first) ''add nginx'' noContext = first)"
proof -
  let ?w = "\<lparr>centralBrain = newClient, reply = NoReply,
             incidentsDir = Some [(''issue-32.json'', LocalRecord ''issue-32'' nginxRule)]\<rparr>"
  have r: "fst (analyze plainRegExp ?w newDetector ''add nginx'' noContext) =
         Inr \<lparr>resViolations =
                [\<lparr>ftype = NO_NGINX_LAW, severity = HIGH, incidentLabel = Some ''Issue #32'',
                  detail = [], financialRisk = None, findingContext = noContext\<rparr>],
              resWarnings = [], resCommendations = [],
              hasViolations = True, hasCritical = False\<rparr>"
    by code_simp
  have i: "incidents (snd (analyze plainRegExp ?w newDetector ''add nginx'' noContext))
             = Some [(''issue-32'', nginxRule)]"
    by code_simp
  from analyze_idempotent [of plainRegExp offline ?w newDetector "''add nginx''" noContext] r i
  show ?thesis by (simp add: Let_def)
qed

subsection \<open>Checks whose rule is absent\<close>

lemmas frame_incidents =
  checkIssue41_incidents checkCost_incidents checkCommendations_incidents

text \<open>
  Each of the seven checks that look a rule up leaves the detector as it is when the
  registry has no such rule.
\<close>

lemma absent_rule_skips:
  assumes "incidents d = Some reg"
  shows "map_of reg ''issue-43'' = None \<Longrightarrow> checkIssue43Pattern rx text ctx d = Inr d"
    and "map_of reg ''issue-32'' = None \<Longrightarrow> checkIssue32Pattern rx text ctx d = Inr d"
    and "map_of reg ''dayman-nightman-theme'' = None
           \<Longrightarrow> checkDaymanNightmanTheme text ctx d = Inr d"
    and "map_of reg ''alpine-base-image'' = None
           \<Longrightarrow> checkAlpineBaseImagePattern rx text ctx d = Inr d"
    and "map_of reg ''docker-amd64-platform'' = None
           \<Longrightarrow> checkDockerAmd64PlatformPattern rx text ctx d = Inr d"
    and "map_of reg ''live-data-law'' = None
           \<Longrightarrow> checkLiveDataLawPattern rx text ctx d = Inr d"
    and "map_of reg ''git-directory-breakout'' = None
           \<Longrightarrow> checkGitDirectoryBreakout text ctx d = Inr d"
  using assms
  by (simp_all add: checkIssue43Pattern_def checkIssue32Pattern_def
      checkDaymanNightmanTheme_def checkAlpineBaseImagePattern_def
      checkDockerAmd64PlatformPattern_def checkLiveDataLawPattern_def
      checkGitDirectoryBreakout_def lookupIncident_def)

lemma frame_violations:
  "violations (checkIssue41Pattern text ctx d) = violations d"
  "violations (checkCostEfficiency text ctx skip d) = violations d"
  "violations (checkCommendations text d) = violations d"
  by (simp_all add: checkIssue41Pattern_def checkCostEfficiency_def checkCommendations_def
      push_defs Let_def)

lemma sprawl_fold:
  "violations (fold (\<lambda>(nm, pattern) d'.
             if regex_test pattern text then pushViolation d' (sprawlViolation ctx nm)
             else d') ps d)
     = violations d
       @ map (sprawlViolation ctx) (map fst (filter (\<lambda>(nm, pattern). regex_test pattern text) ps))"
  by (induction ps arbitrary: d) (auto simp: push_defs)

lemma checkSprawl_violations:
  "violations (checkEnterpriseSprawl text ctx skip d)
     = violations d
       @ map (sprawlViolation ctx)
           (map fst (filter (\<lambda>(nm, pattern). regex_test pattern text) sprawlPatterns))"
  unfolding checkEnterpriseSprawl_def by (rule sprawl_fold)

lemma runChecks_empty_registry:
  assumes "incidents d = Some []"
  shows "runChecks (allChecks rx text ctx investor) d =
         (None, checkCommendations text
                  (checkCostEfficiency text ctx investor
                    (checkEnterpriseSprawl text ctx investor
                      (checkIssue41Pattern text ctx d))))"
proof -
  let ?d1 = "checkIssue41Pattern text ctx d"
  let ?d2 = "checkEnterpriseSprawl text ctx investor ?d1"
  have i1: "incidents ?d1 = Some []" using assms by (simp add: frame_incidents)
  have i2: "incidents ?d2 = Some []" using i1 by (simp add: checkSprawl_incidents)
  note a = absent_rule_skips [OF assms]
  note b = absent_rule_skips [OF i1]
  note c = absent_rule_skips [OF i2]
  show ?thesis
    by (simp add: allChecks_def checkHardcodedData_def a b c)
qed

text \<open>
  C4. With an empty registry, a change to a file whose path contains \<open>deploy\<close> and
  whose text shows no local test gets the warning \<open>UNTESTED_DEPLOY\<close> of Issue #41:
  \<open>checkIssue41Pattern\<close> looks no rule up, where the seven other incident checks do.
\<close>

theorem untested_deploy_without_rule:
  "fst (analyze plainRegExp offline (loaded []) ''bump version'' (contextOf ''deploy.yml'')) =
     Inr \<lparr>resViolations = [],
          resWarnings = [\<lparr>ftype = UNTESTED_DEPLOY, severity = HIGH,
                          incidentLabel = Some ''Issue #41'', detail = [],
                          financialRisk = None, findingContext = contextOf ''deploy.yml''\<rparr>],
          resCommendations = [], hasViolations = False, hasCritical = False\<rparr>"
  by code_simp

subsection \<open>Enterprise sprawl\<close>

text \<open>
  C10. \<open>checkEnterpriseSprawl\<close> appends one \<open>CRITICAL\<close> violation of type
  \<open>ENTERPRISE_SPRAWL\<close> for each of its five categories whose pattern matches the text,
  in the order of the table, whatever the detector holds and whatever its third
  argument; with an empty registry the violations of \<open>analyze\<close> on a text that is not
  documentation are exactly these.
\<close>

theorem enterprise_sprawl_unconditional:
  "violations (checkEnterpriseSprawl text ctx skip d)
     = violations d
       @ map (sprawlViolation ctx)
           (map fst (filter (\<lambda>(nm, pattern). regex_test pattern text) sprawlPatterns))
   \<and> length sprawlPatterns = 5
   \<and> ftype (sprawlViolation ctx nm) = ENTERPRISE_SPRAWL
   \<and> severity (sprawlViolation ctx nm) = CRITICAL
   \<and> (\<not> isDocumentation text \<longrightarrow>
        (\<exists>res. fst (analyze rx w (loaded []) text ctx) = Inr res
           \<and> resViolations res
               = map (sprawlViolation ctx)
                   (map fst (filter (\<lambda>(nm, pattern). regex_test pattern text) sprawlPatterns))))"
proof -
  have e: "incidents (x\<lparr>violations := [], warnings := [], commendations := []\<rparr>) = Some []"
    if "incidents x = Some []" for x :: detector
    using that by simp
  have "\<exists>res. fst (analyze rx w (loaded []) text ctx) = Inr res
           \<and> resViolations res
               = map (sprawlViolation ctx)
                   (map fst (filter (\<lambda>(nm, pattern). regex_test pattern text) sprawlPatterns))"
    if "\<not> isDocumentation text"
    using that
    by (simp add: analyze_def Let_def loaded_def newDetector_def runChecks_empty_registry
        push_defs getResults_def frame_violations checkSprawl_violations)
  then show ?thesis
    by (simp add: checkSprawl_violations sprawlPatterns_def sprawlViolation_def)
qed

text \<open>
  A text of investor materials that names all five categories: five violations, and
  the commendation of the soft exception.
\<close>

theorem enterprise_sprawl_unconditional_witness:
  "\<not> isDocumentation sprawlText \<and> isInvestorMaterials sprawlText
   \<and> fst (analyze plainRegExp offline (loaded []) sprawlText noContext) =
       Inr \<lparr>resViolations =
              map (sprawlViolation noContext)
                [''DDoS Protection'', ''Private Link'', ''Enterprise Key Management'',
                 ''Application Gateway'', ''Azure Firewall''],
            resWarnings = [], resCommendations = [INVESTOR_MATERIALS],
            hasViolations = True, hasCritical = True\<rparr>"
proof -
  have doc: "\<not> isDocumentation sprawlText"
    by code_simp
  have inv: "isInvestorMaterials sprawlText"
    by code_simp
  have res: "fst (analyze plainRegExp offline (loaded []) sprawlText noContext) =
       Inr \<lparr>resViolations =
              map (sprawlViolation noContext)
                [''DDoS Protection'', ''Private Link'', ''Enterprise Key Management'',
                 ''Application Gateway'', ''Azure Firewall''],
            resWarnings = [], resCommendations = [INVESTOR_MATERIALS],
            hasViolations = True, hasCritical = True\<rparr>"
    by code_simp
  from enterprise_sprawl_unconditional
         [of sprawlText noContext True newDetector "''x''" plainRegExp offline]
       doc inv res
  show ?thesis by simp
qed

subsection \<open>Malformed rules\<close>










section \<open>Properties of the telemetry sender\<close>

lemma sendEvents_ok:
  "enabled c \<Longrightarrow> events \<noteq> [] \<Longrightarrow> ok n \<Longrightarrow>
   sendEvents c ok events n = [Post n, LogSent (length events)]"
  by (subst sendEvents.simps) simp

lemma sendEvents_retry:
  "enabled c \<Longrightarrow> events \<noteq> [] \<Longrightarrow> \<not> ok n \<Longrightarrow> n < retryAttempts c \<Longrightarrow> 0 < n \<Longrightarrow>
   sendEvents c ok events n =
     Post n # WarnRetry n (of_nat (retryDelay c) * 2 ^ (n - 1))
       # Wait (of_nat (retryDelay c) * 2 ^ (n - 1)) # sendEvents c ok events (Suc n)"
  by (subst sendEvents.simps) (simp add: Let_def)

lemma sendEvents_drop:
  "enabled c \<Longrightarrow> events \<noteq> [] \<Longrightarrow> \<not> ok n \<Longrightarrow> \<not> n < retryAttempts c \<Longrightarrow>
   sendEvents c ok events n = [Post n, LogFailed (retryAttempts c), LogDropped (length events)]"
  by (subst sendEvents.simps) simp

lemma sendEvents_posts:
  "attempt \<le> retryAttempts c \<Longrightarrow>
   length (filter isPost (sendEvents c ok events attempt)) \<le> retryAttempts c - attempt + 1"
proof (induction c ok events attempt rule: sendEvents.induct)
  case (1 c ok events attempt)
  show ?case
  proof (cases "\<not> (\<not> enabled c \<or> length events = 0) \<and> \<not> ok attempt \<and> attempt < retryAttempts c")
    case True
    then have "length (filter isPost (sendEvents c ok events (attempt + 1)))
                 \<le> retryAttempts c - (attempt + 1) + 1"
      by (intro "1.IH") auto
    with True show ?thesis
      apply (subst sendEvents.simps)
      apply (simp add: Let_def)
      apply arith
      done
  next
    case False
    then show ?thesis
      by (subst sendEvents.simps) auto
  qed
qed

lemma configured_fields:
  "enabled configured" "retryAttempts configured = 3" "retryDelay configured = 1000"
  by (simp_all add: configured_def newClient_def)

text \<open>
  C6. On a configured client, with events to send and every POST failing,
  \<open>sendEvents\<close> makes three attempts, waits 1000 ms after the first and 2000 ms after
  the second, then logs the failure and the number of events dropped. Whatever the
  outcomes of the POSTs, it makes at most three attempts. Its only outcome is this list
  of effects: the \<open>catch\<close> block takes every failure of the \<open>try\<close> block, and nothing
  is thrown or returned to the caller.
\<close>

theorem sendEvents_retries:
  "events \<noteq> [] \<Longrightarrow> \<not> ok 1 \<Longrightarrow> \<not> ok 2 \<Longrightarrow> \<not> ok 3 \<Longrightarrow>
   sendEvents configured ok events 1 =
     [Post 1, WarnRetry 1 1000, Wait 1000,
      Post 2, WarnRetry 2 2000, Wait 2000,
      Post 3, LogFailed 3, LogDropped (length events)]
   \<and> length (filter isPost (sendEvents configured ok' events 1)) \<le> 3"
proof -
  assume a: "events \<noteq> []" "\<not> ok 1" "\<not> ok 2" "\<not> ok 3"
  have "sendEvents configured ok events (Suc 0) =
     [Post (Suc 0), WarnRetry (Suc 0) 1000, Wait 1000,
      Post (Suc (Suc 0)), WarnRetry (Suc (Suc 0)) 2000, Wait 2000,
      Post (Suc (Suc (Suc 0))), LogFailed 3, LogDropped (length events)]"
    using a
    by (simp add: sendEvents_retry sendEvents_drop configured_fields eval_nat_numeral)
  moreover have "length (filter isPost (sendEvents configured ok' events 1)) \<le> 3"
    using sendEvents_posts [of 1 configured ok' events] by (simp add: configured_fields)
  ultimately show ?thesis
    by (simp add: eval_nat_numeral)
qed

text \<open>Three failures, and a success at the second attempt.\<close>

theorem sendEvents_retries_witness:
  "sendEvents configured (\<lambda>n. False) [''violation''] 1 =
     [Post 1, WarnRetry 1 1000, Wait 1000,
      Post 2, WarnRetry 2 2000, Wait 2000,
      Post 3, LogFailed 3, LogDropped 1]
   \<and> sendEvents configured (\<lambda>n. n = 2) [''violation''] 1 =
     [Post 1, WarnRetry 1 1000, Wait 1000, Post 2, LogSent 1]"
proof -
  have "sendEvents configured (\<lambda>n. n = 2) [''violation''] (Suc 0) =
     [Post (Suc 0), WarnRetry (Suc 0) 1000, Wait 1000, Post (Suc (Suc 0)), LogSent (Suc 0)]"
    by (simp add: sendEvents_retry sendEvents_ok configured_fields eval_nat_numeral)
  then have t1: "sendEvents configured (\<lambda>n. n = 2) [''violation''] 1 =
     [Post 1, WarnRetry 1 1000, Wait 1000, Post 2, LogSent 1]"
    by (simp add: eval_nat_numeral)
  from sendEvents_retries [of "[''violation'']" "\<lambda>n. False" "\<lambda>n. False"] t1
  show ?thesis by simp
qed

end
